theory Spec2Isabelle
  imports Complex_Main "HOL-Library.Sublist"
begin

section \<open>Python values and built-ins used by the pipeline\<close>

text \<open>
  The pipeline (\<^verbatim>\<open>scripts/fetch_stock_data.py\<close>) works on the value that
  \<^verbatim>\<open>response.json()\<close> decodes: \<^verbatim>\<open>None\<close>, booleans, unbounded integers,
  floats, strings, lists and dictionaries. A dictionary is an association list in
  insertion order; a decoded dictionary has distinct keys. Strings are ASCII.

  A float is one of the three special values or \<open>Finite r\<close>, standing for the
  binary64 value nearest to the rational \<open>r\<close>; rounding itself is not modelled and
  no statement below depends on it.
\<close>

datatype pyfloat = Finite rat | PosInf | NegInf | NaN

datatype json =
    JNull
  | JBool bool
  | JInt int
  | JFloat pyfloat
  | JStr string
  | JArr "json list"
  | JObj "(string \<times> json) list"

text \<open>The exception classes that can arise in the modelled code.\<close>

datatype pyexc =
    ValueError
  | TypeError
  | OverflowError
  | AttributeError
  | KeyError
  | RequestException
  | DatabaseError

text \<open>Sequencing of computations that may raise: the first exception wins.\<close>

definition then_do :: "pyexc + 'a \<Rightarrow> ('a \<Rightarrow> pyexc + 'b) \<Rightarrow> pyexc + 'b" where
  "then_do m f = (case m of Inl e \<Rightarrow> Inl e | Inr x \<Rightarrow> f x)"

text \<open>
  \<^verbatim>\<open>obj.get(key, default)\<close> and \<^verbatim>\<open>obj.items()\<close>: only a dictionary has these
  attributes; on any other decoded value the attribute lookup raises AttributeError.
\<close>

fun py_get :: "json \<Rightarrow> string \<Rightarrow> json \<Rightarrow> pyexc + json" where
  "py_get (JObj kvs) k d = Inr (case map_of kvs k of None \<Rightarrow> d | Some v \<Rightarrow> v)"
| "py_get _ k d = Inl AttributeError"

fun py_items :: "json \<Rightarrow> pyexc + (string \<times> json) list" where
  "py_items (JObj kvs) = Inr kvs"
| "py_items _ = Inl AttributeError"

subsection \<open>Numeric literals in strings\<close>

text \<open>
  Whitespace as \<^verbatim>\<open>str.strip()\<close> and the pattern \<^verbatim>\<open>\s\<close> see it (\<open>py_isspace\<close>: the
  six characters of C and the four separators 0x1C to 0x1F), and as \<^verbatim>\<open>float()\<close> and
  \<^verbatim>\<open>int()\<close> strip it from an ASCII string (\<open>c_isspace\<close>: the six characters of C only).
\<close>

definition py_isspace :: "char \<Rightarrow> bool" where
  "py_isspace c =
     (c \<in> set [CHR 0x09, CHR 0x0A, CHR 0x0B, CHR 0x0C, CHR 0x0D,
                CHR 0x1C, CHR 0x1D, CHR 0x1E, CHR 0x1F, CHR 0x20])"

definition py_strip :: "string \<Rightarrow> string" where
  "py_strip s = rev (dropWhile py_isspace (rev (dropWhile py_isspace s)))"

definition c_isspace :: "char \<Rightarrow> bool" where
  "c_isspace c = (c \<in> set [CHR 0x09, CHR 0x0A, CHR 0x0B, CHR 0x0C, CHR 0x0D, CHR 0x20])"

definition number_strip :: "string \<Rightarrow> string" where
  "number_strip s = rev (dropWhile c_isspace (rev (dropWhile c_isspace s)))"

definition is_digit :: "char \<Rightarrow> bool" where
  "is_digit c = (c \<in> set ''0123456789'')"

definition digit_val :: "char \<Rightarrow> nat" where
  "digit_val c = of_char c - 48"

definition nat_of_digits :: "string \<Rightarrow> nat" where
  "nat_of_digits ds = foldl (\<lambda>n c. 10 * n + digit_val c) 0 ds"

text \<open>
  \<open>digitpart ::= digit (["_"] digit)*\<close>: the digits read (underscores removed) and
  the rest of the input, or None when the input does not start with a digit.
\<close>

fun digitrun :: "string \<Rightarrow> string \<times> string" where
  "digitrun [] = ([], [])"
| "digitrun [c] = (if is_digit c then ([c], []) else ([], [c]))"
| "digitrun (c # d # cs) =
     (if is_digit c then (case digitrun (d # cs) of (ds, r) \<Rightarrow> (c # ds, r))
      else if c = CHR ''_'' \<and> is_digit d then (case digitrun cs of (ds, r) \<Rightarrow> (d # ds, r))
      else ([], c # d # cs))"

definition digitpart :: "string \<Rightarrow> (string \<times> string) option" where
  "digitpart s =
     (case s of
        [] \<Rightarrow> None
      | c # cs \<Rightarrow> if is_digit c then (case digitrun cs of (ds, r) \<Rightarrow> Some (c # ds, r)) else None)"

text \<open>An optional sign: whether it is a minus, and the rest.\<close>

definition sign_of :: "string \<Rightarrow> bool \<times> string" where
  "sign_of s =
     (case s of
        [] \<Rightarrow> (False, [])
      | c # cs \<Rightarrow> if c = CHR ''-'' then (True, cs) else if c = CHR ''+'' then (False, cs)
                 else (False, c # cs))"

text \<open>
  \<^verbatim>\<open>int(s)\<close> for a string: surrounding whitespace is stripped, then an optional
  sign and one digitpart must make up the whole text, and the digitpart may have at
  most \<open>max_str_digits\<close> digits (the interpreter's default limit); anything else is a
  ValueError.
\<close>

definition max_str_digits :: nat where
  "max_str_digits = 4300"

definition int_of_str :: "string \<Rightarrow> pyexc + int" where
  "int_of_str s =
     (case sign_of (number_strip s) of
        (neg, u) \<Rightarrow>
          (case digitpart u of
             Some (ds, []) \<Rightarrow>
               if max_str_digits < length ds then Inl ValueError
               else Inr (if neg then - int (nat_of_digits ds) else int (nat_of_digits ds))
           | _ \<Rightarrow> Inl ValueError))"

text \<open>
  \<^verbatim>\<open>float(s)\<close> for a string, after stripping and the optional sign:
  \<open>inf\<close>, \<open>infinity\<close> or \<open>nan\<close> in any letter case, or
  \<open>number ::= [digitpart] "." digitpart | digitpart ["."]\<close> followed by an optional
  \<open>exponent ::= ("e" | "E") [sign] digitpart\<close>. A decimal is returned as mantissa
  and power of ten.
\<close>

definition lower_char :: "char \<Rightarrow> char" where
  "lower_char c =
     (if (65::nat) \<le> of_char c \<and> of_char c \<le> (90::nat) then char_of (of_char c + (32::nat)) else c)"

definition exponent_of :: "string \<Rightarrow> int option" where
  "exponent_of r =
     (case r of
        [] \<Rightarrow> Some 0
      | c # r' \<Rightarrow>
          if c = CHR ''e'' \<or> c = CHR ''E'' then
            (case sign_of r' of
               (neg, r'') \<Rightarrow>
                 (case digitpart r'' of
                    Some (ds, []) \<Rightarrow> Some (if neg then - int (nat_of_digits ds) else int (nat_of_digits ds))
                  | _ \<Rightarrow> None))
          else None)"

definition decimal_of :: "string \<Rightarrow> string \<Rightarrow> string \<Rightarrow> (nat \<times> int) option" where
  "decimal_of ip fp r =
     (case exponent_of r of
        None \<Rightarrow> None
      | Some e \<Rightarrow> Some (nat_of_digits (ip @ fp), e - int (length fp)))"

definition floatnumber :: "string \<Rightarrow> (nat \<times> int) option" where
  "floatnumber u =
     (case digitpart u of
        Some (ip, r1) \<Rightarrow>
          (case r1 of
             c # r2 \<Rightarrow>
               if c = CHR ''.'' then
                 (case digitpart r2 of
                    Some (fp, r3) \<Rightarrow> decimal_of ip fp r3
                  | None \<Rightarrow> decimal_of ip [] r2)
               else decimal_of ip [] r1
           | [] \<Rightarrow> decimal_of ip [] r1)
      | None \<Rightarrow>
          (case u of
             c # r2 \<Rightarrow>
               if c = CHR ''.'' then
                 (case digitpart r2 of
                    Some (fp, r3) \<Rightarrow> decimal_of [] fp r3
                  | None \<Rightarrow> None)
               else None
           | [] \<Rightarrow> None))"

text \<open>
  A value at or beyond \<open>2^1024 - 2^970\<close> in magnitude rounds out of the binary64 range:
  converting a decimal string then gives an infinity, converting an integer raises
  OverflowError.
\<close>

definition float_limit :: int where
  "float_limit = 2 ^ 1024 - 2 ^ 970"

definition to_binary64 :: "rat \<Rightarrow> pyfloat" where
  "to_binary64 r =
     (if of_int float_limit \<le> r then PosInf
      else if r \<le> - of_int float_limit then NegInf
      else Finite r)"

definition float_of_str :: "string \<Rightarrow> pyexc + pyfloat" where
  "float_of_str s =
     (case sign_of (number_strip s) of
        (neg, u) \<Rightarrow>
          if map lower_char u = ''inf'' \<or> map lower_char u = ''infinity''
          then Inr (if neg then NegInf else PosInf)
          else if map lower_char u = ''nan'' then Inr NaN
          else
            (case floatnumber u of
               None \<Rightarrow> Inl ValueError
             | Some (m, e) \<Rightarrow>
                 let r = (if 0 \<le> e then of_nat m * 10 ^ nat e else of_nat m / 10 ^ nat (- e))
                 in Inr (to_binary64 (if neg then - r else r))))"

text \<open>\<^verbatim>\<open>float(v)\<close> and \<^verbatim>\<open>int(v)\<close> on a decoded value.\<close>

fun py_float :: "json \<Rightarrow> pyexc + pyfloat" where
  "py_float JNull = Inl TypeError"
| "py_float (JBool b) = Inr (Finite (if b then 1 else 0))"
| "py_float (JInt n) = (if float_limit \<le> \<bar>n\<bar> then Inl OverflowError else Inr (Finite (of_int n)))"
| "py_float (JFloat f) = Inr f"
| "py_float (JStr s) = float_of_str s"
| "py_float (JArr xs) = Inl TypeError"
| "py_float (JObj kvs) = Inl TypeError"

fun py_int :: "json \<Rightarrow> pyexc + int" where
  "py_int JNull = Inl TypeError"
| "py_int (JBool b) = Inr (if b then 1 else 0)"
| "py_int (JInt n) = Inr n"
| "py_int (JFloat (Finite r)) = Inr (if 0 \<le> r then \<lfloor>r\<rfloor> else \<lceil>r\<rceil>)"
| "py_int (JFloat NaN) = Inl ValueError"
| "py_int (JFloat PosInf) = Inl OverflowError"
| "py_int (JFloat NegInf) = Inl OverflowError"
| "py_int (JStr s) = int_of_str s"
| "py_int (JArr xs) = Inl TypeError"
| "py_int (JObj kvs) = Inl TypeError"

subsection \<open>Timestamps in the provider's wire format\<close>

text \<open>
  \<^verbatim>\<open>datetime.strptime(s, '%Y-%m-%d %H:%M:%S')\<close>. Each directive is the alternation
  the library's pattern uses, tried in its order; a blank in the format matches one
  or more whitespace characters; the whole string must be consumed. After each field
  the format asks for a character that is not a digit, so giving up the first
  alternative that matches for a shorter one cannot turn a failed match into a
  successful one, and the match is read off without backtracking. The date
  must exist (year from 1, day within the month) and the second must be at most 59.
  Every failure is a ValueError.
\<close>

record datetime =
  year :: nat
  month :: nat
  day :: nat
  hour :: nat
  minute :: nat
  second :: nat

type_synonym char_class = "string"

fun match_seq :: "char_class list \<Rightarrow> string \<Rightarrow> (string \<times> string) option" where
  "match_seq [] s = Some ([], s)"
| "match_seq (cl # cls) [] = None"
| "match_seq (cl # cls) (c # s) =
     (if c \<in> set cl then (case match_seq cls s of None \<Rightarrow> None | Some (m, r) \<Rightarrow> Some (c # m, r))
      else None)"

fun match_alt :: "char_class list list \<Rightarrow> string \<Rightarrow> (string \<times> string) option" where
  "match_alt [] s = None"
| "match_alt (a # alts) s = (case match_seq a s of Some mr \<Rightarrow> Some mr | None \<Rightarrow> match_alt alts s)"

definition digits :: char_class where
  "digits = ''0123456789''"

definition directive_Y :: "char_class list list" where
  "directive_Y = [[digits, digits, digits, digits]]"

definition directive_m :: "char_class list list" where
  "directive_m = [[''1'', ''012''], [''0'', ''123456789''], [''123456789'']]"

definition directive_d :: "char_class list list" where
  "directive_d = [[''3'', ''01''], [''12'', digits], [''0'', ''123456789''], [''123456789''],
                  ['' '', ''123456789'']]"

definition directive_H :: "char_class list list" where
  "directive_H = [[''2'', ''0123''], [''01'', digits], [digits]]"

definition directive_M :: "char_class list list" where
  "directive_M = [[''012345'', digits], [digits]]"

definition directive_S :: "char_class list list" where
  "directive_S = [[''6'', ''01''], [''012345'', digits], [digits]]"

text \<open>A field's value: its digits, a leading blank of the day skipped.\<close>

definition field_val :: "string \<Rightarrow> nat" where
  "field_val m = nat_of_digits (filter is_digit m)"

definition literal :: "char \<Rightarrow> string \<Rightarrow> string option" where
  "literal c s = (case s of [] \<Rightarrow> None | x # r \<Rightarrow> if x = c then Some r else None)"

definition blanks :: "string \<Rightarrow> string option" where
  "blanks s = (case s of [] \<Rightarrow> None | x # r \<Rightarrow> if py_isspace x then Some (dropWhile py_isspace r) else None)"

definition leap_year :: "nat \<Rightarrow> bool" where
  "leap_year y = (y mod 4 = 0 \<and> (y mod 100 \<noteq> 0 \<or> y mod 400 = 0))"

definition days_in_month :: "nat \<Rightarrow> nat \<Rightarrow> nat" where
  "days_in_month y m =
     (if m = 2 then (if leap_year y then 29 else 28)
      else if m \<in> set [4, 6, 9, 11] then 30 else 31)"

definition match_wire :: "string \<Rightarrow> datetime option" where
  "match_wire s0 =
     Option.bind (match_alt directive_Y s0) (\<lambda>(y, s1).
     Option.bind (literal CHR ''-'' s1) (\<lambda>s2.
     Option.bind (match_alt directive_m s2) (\<lambda>(mo, s3).
     Option.bind (literal CHR ''-'' s3) (\<lambda>s4.
     Option.bind (match_alt directive_d s4) (\<lambda>(d, s5).
     Option.bind (blanks s5) (\<lambda>s6.
     Option.bind (match_alt directive_H s6) (\<lambda>(h, s7).
     Option.bind (literal CHR '':'' s7) (\<lambda>s8.
     Option.bind (match_alt directive_M s8) (\<lambda>(mi, s9).
     Option.bind (literal CHR '':'' s9) (\<lambda>s10.
     Option.bind (match_alt directive_S s10) (\<lambda>(sc, s11).
       if s11 = [] then
         Some \<lparr>year = field_val y, month = field_val mo, day = field_val d,
               hour = field_val h, minute = field_val mi, second = field_val sc\<rparr>
       else None)))))))))))"

definition strptime :: "string \<Rightarrow> pyexc + datetime" where
  "strptime s =
     (case match_wire s of
        None \<Rightarrow> Inl ValueError
      | Some t \<Rightarrow>
          if 1 \<le> year t \<and> day t \<le> days_in_month (year t) (month t) \<and> second t \<le> 59
          then Inr t else Inl ValueError)"

section \<open>ResponseParser: \<^verbatim>\<open>StockDataFetcher.parse_stock_data\<close>\<close>

text \<open>
  One parsed data point: the dictionary the loop body builds, with its nine fixed keys.
  The two metadata entries hold whatever \<^verbatim>\<open>metadata.get\<close> returned
  (\<open>JNull\<close> is \<^verbatim>\<open>None\<close>).
\<close>

record observation =
  symbol :: string
  timestamp :: datetime
  open_price :: pyfloat
  high_price :: pyfloat
  low_price :: pyfloat
  close_price :: pyfloat
  volume :: int
  last_refreshed :: json
  time_zone :: json

text \<open>
  The dictionary display of the loop body (source lines 58--68). Its entries are
  evaluated body to bottom, so the first conversion that raises decides the exception.
\<close>

definition data_point :: "string \<Rightarrow> json \<Rightarrow> string \<Rightarrow> json \<Rightarrow> pyexc + observation" where
  "data_point smb metadata ts vals =
     then_do (strptime ts) (\<lambda>t.
     then_do (then_do (py_get vals ''1. open'' (JInt 0)) py_float) (\<lambda>op.
     then_do (then_do (py_get vals ''2. high'' (JInt 0)) py_float) (\<lambda>hi.
     then_do (then_do (py_get vals ''3. low'' (JInt 0)) py_float) (\<lambda>lo.
     then_do (then_do (py_get vals ''4. close'' (JInt 0)) py_float) (\<lambda>cl.
     then_do (then_do (py_get vals ''5. volume'' (JInt 0)) py_int) (\<lambda>vol.
     then_do (py_get metadata ''3. Last Refreshed'' JNull) (\<lambda>lr.
     then_do (py_get metadata ''5. Time Zone'' JNull) (\<lambda>tz.
       Inr \<lparr>symbol = smb, timestamp = t, open_price = op, high_price = hi,
            low_price = lo, close_price = cl, volume = vol,
            last_refreshed = lr, time_zone = tz\<rparr>))))))))"

text \<open>
  The loop over \<^verbatim>\<open>time_series.items()\<close> (lines 56--72): the inner handler catches
  ValueError and TypeError and continues with the next entry; any other exception
  leaves the loop.
\<close>

fun parse_points ::
  "string \<Rightarrow> json \<Rightarrow> (string \<times> json) list \<Rightarrow> observation list \<Rightarrow> pyexc + observation list" where
  "parse_points smb metadata [] parsed_data = Inr parsed_data"
| "parse_points smb metadata ((ts, vals) # rest) parsed_data =
     (case data_point smb metadata ts vals of
        Inr dp \<Rightarrow> parse_points smb metadata rest (parsed_data @ [dp])
      | Inl e \<Rightarrow>
          if e = ValueError \<or> e = TypeError then parse_points smb metadata rest parsed_data
          else Inl e)"

text \<open>The body of the outer \<^verbatim>\<open>try\<close> (lines 52--74).\<close>

definition parse_body :: "string \<Rightarrow> json \<Rightarrow> pyexc + observation list" where
  "parse_body smb raw_data =
     then_do (py_get raw_data ''Time Series (60min)'' (JObj [])) (\<lambda>time_series.
     then_do (py_get raw_data ''Meta Data'' (JObj [])) (\<lambda>metadata.
     then_do (py_items time_series) (\<lambda>entries.
       parse_points smb metadata entries [])))"

text \<open>The outer handler catches every exception and returns the empty list.\<close>

definition parse_stock_data :: "string \<Rightarrow> json \<Rightarrow> observation list" where
  "parse_stock_data smb raw_data =
     (case parse_body smb raw_data of Inr parsed_data \<Rightarrow> parsed_data | Inl e \<Rightarrow> [])"

subsection \<open>Vocabulary for statements about the parser\<close>

text \<open>The entries of the time-series section of a response, when it has one.\<close>

definition time_series_of :: "json \<Rightarrow> (string \<times> json) list" where
  "time_series_of raw_data =
     (case raw_data of
        JObj body \<Rightarrow>
          (case map_of body ''Time Series (60min)'' of Some (JObj series) \<Rightarrow> series | _ \<Rightarrow> [])
      | _ \<Rightarrow> [])"

text \<open>What \<^verbatim>\<open>values.get(key, 0)\<close> hands to the conversion.\<close>

definition field_or_zero :: "(string \<times> json) list \<Rightarrow> string \<Rightarrow> json" where
  "field_or_zero fs k = (case map_of fs k of None \<Rightarrow> JInt 0 | Some v \<Rightarrow> v)"

definition price_fields :: "string list" where
  "price_fields = [''1. open'', ''2. high'', ''3. low'', ''4. close'']"

definition volume_field :: string where
  "volume_field = ''5. volume''"

fun returns :: "pyexc + 'a \<Rightarrow> bool" where
  "returns (Inr x) = True"
| "returns (Inl e) = False"

text \<open>
  An entry the loop body can turn into a data point as far as its own content goes:
  a field set whose timestamp parses and whose five fields, each taken as 0 when
  absent, convert.
\<close>

fun convertible :: "string \<times> json \<Rightarrow> bool" where
  "convertible (ts, JObj fs) =
     (returns (strptime ts) \<and>
      list_all (\<lambda>k. returns (py_float (field_or_zero fs k))) price_fields \<and>
      returns (py_int (field_or_zero fs volume_field)))"
| "convertible (ts, v) = False"

text \<open>
  A non-numeric value: \<^verbatim>\<open>None\<close>, a list, a dictionary, or a string that does not
  spell a number.
\<close>

fun non_numeric :: "json \<Rightarrow> bool" where
  "non_numeric JNull = True"
| "non_numeric (JStr s) = (float_of_str s = Inl ValueError)"
| "non_numeric (JArr xs) = True"
| "non_numeric (JObj kvs) = True"
| "non_numeric v = False"

text \<open>
  A well-formed entry: a field set with a timestamp in the wire format and all five
  fields present and convertible.
\<close>

fun well_formed :: "string \<times> json \<Rightarrow> bool" where
  "well_formed (ts, JObj fs) =
     (returns (strptime ts) \<and>
      list_all (\<lambda>k. case map_of fs k of None \<Rightarrow> False | Some v \<Rightarrow> returns (py_float v))
        price_fields \<and>
      (case map_of fs volume_field of None \<Rightarrow> False | Some v \<Rightarrow> returns (py_int v)))"
| "well_formed (ts, v) = False"

text \<open>
  A malformed entry: a field set in which some required field holds a non-numeric
  value.
\<close>

fun malformed :: "string \<times> json \<Rightarrow> bool" where
  "malformed (ts, JObj fs) =
     list_ex (\<lambda>k. case map_of fs k of None \<Rightarrow> False | Some v \<Rightarrow> non_numeric v)
       (price_fields @ [volume_field])"
| "malformed (ts, v) = False"

text \<open>
  Numbers outside the range of a conversion: an integer too large for a float as a
  price, a float infinity as volume. An entry is out of range when one of its
  required fields holds such a number.
\<close>

fun too_large_for_float :: "json \<Rightarrow> bool" where
  "too_large_for_float (JInt n) = (float_limit \<le> \<bar>n\<bar>)"
| "too_large_for_float v = False"

fun infinite_float :: "json \<Rightarrow> bool" where
  "infinite_float (JFloat PosInf) = True"
| "infinite_float (JFloat NegInf) = True"
| "infinite_float v = False"

fun out_of_range :: "string \<times> json \<Rightarrow> bool" where
  "out_of_range (ts, JObj fs) =
     (list_ex (\<lambda>k. case map_of fs k of None \<Rightarrow> False | Some v \<Rightarrow> too_large_for_float v)
        price_fields \<or>
      (case map_of fs volume_field of None \<Rightarrow> False | Some v \<Rightarrow> infinite_float v))"
| "out_of_range (ts, v) = False"

text \<open>
  What it means for an observation to be built from a time-series entry: the entry is
  a field set, the observation carries the given symbol and the parsed timestamp, and
  each of its five numbers is the conversion of the entry's field when the field is
  present and 0 when it is absent.
\<close>

definition price_from :: "(string \<times> json) list \<Rightarrow> string \<Rightarrow> pyfloat \<Rightarrow> bool" where
  "price_from fs k p =
     (case map_of fs k of None \<Rightarrow> p = Finite 0 | Some v \<Rightarrow> py_float v = Inr p)"

definition volume_from :: "(string \<times> json) list \<Rightarrow> int \<Rightarrow> bool" where
  "volume_from fs n =
     (case map_of fs ''5. volume'' of None \<Rightarrow> n = 0 | Some v \<Rightarrow> py_int v = Inr n)"

fun built_from :: "string \<Rightarrow> observation \<Rightarrow> string \<times> json \<Rightarrow> bool" where
  "built_from smb ob (ts, JObj fs) =
     (symbol ob = smb \<and>
      strptime ts = Inr (timestamp ob) \<and>
      price_from fs ''1. open'' (open_price ob) \<and>
      price_from fs ''2. high'' (high_price ob) \<and>
      price_from fs ''3. low'' (low_price ob) \<and>
      price_from fs ''4. close'' (close_price ob) \<and>
      volume_from fs (volume ob))"
| "built_from smb ob (ts, v) = False"

text \<open>The two metadata entries an observation carries, copied from a metadata record.\<close>

definition carries_metadata :: "(string \<times> json) list \<Rightarrow> observation \<Rightarrow> bool" where
  "carries_metadata md ob =
     (last_refreshed ob = (case map_of md ''3. Last Refreshed'' of None \<Rightarrow> JNull | Some x \<Rightarrow> x) \<and>
      time_zone ob = (case map_of md ''5. Time Zone'' of None \<Rightarrow> JNull | Some x \<Rightarrow> x))"

text \<open>The metadata section is a dictionary, or absent.\<close>

definition metadata_of :: "(string \<times> json) list \<Rightarrow> json option" where
  "metadata_of body =
     (case map_of body ''Meta Data'' of
        None \<Rightarrow> Some (JObj [])
      | Some (JObj md) \<Rightarrow> Some (JObj md)
      | Some v \<Rightarrow> None)"

text \<open>
  The data points the loop appends when it runs to its end: those of the entries for
  which the loop body does not raise, in the order of the entries.
\<close>

definition kept_points :: "string \<Rightarrow> json \<Rightarrow> (string \<times> json) list \<Rightarrow> observation list" where
  "kept_points smb metadata entries =
     concat (map (\<lambda>(ts, vals). case data_point smb metadata ts vals of
                                  Inr dp \<Rightarrow> [dp] | Inl e \<Rightarrow> []) entries)"

subsection \<open>Sample responses\<close>

definition sample_metadata :: json where
  "sample_metadata =
     JObj [(''2. Symbol'', JStr ''AAPL''),
           (''3. Last Refreshed'', JStr ''2024-01-02 16:00:00''),
           (''5. Time Zone'', JStr ''US/Eastern'')]"

definition good_entry :: "string \<times> json" where
  "good_entry =
     (''2024-01-02 10:00:00'',
      JObj [(''1. open'', JStr ''150.00''), (''2. high'', JStr ''151.00''),
            (''3. low'', JStr ''149.50''), (''4. close'', JStr ''150.25''),
            (''5. volume'', JStr ''1200'')])"

definition entry_without_open :: "string \<times> json" where
  "entry_without_open =
     (''2024-01-02 11:00:00'',
      JObj [(''2. high'', JStr ''151.00''), (''3. low'', JStr ''149.50''),
            (''4. close'', JStr ''150.25''), (''5. volume'', JStr ''1200'')])"

definition bad_price_entry :: "string \<times> json" where
  "bad_price_entry =
     (''2024-01-02 12:00:00'',
      JObj [(''1. open'', JStr ''n/a''), (''2. high'', JStr ''151.00''),
            (''3. low'', JStr ''149.50''), (''4. close'', JStr ''150.25''),
            (''5. volume'', JStr ''1200'')])"

definition response_missing_open :: json where
  "response_missing_open =
     JObj [(''Meta Data'', sample_metadata),
           (''Time Series (60min)'', JObj [entry_without_open])]"

definition response_partly_corrupt :: json where
  "response_partly_corrupt =
     JObj [(''Meta Data'', sample_metadata),
           (''Time Series (60min)'', JObj [good_entry, bad_price_entry])]"

definition response_without_metadata :: json where
  "response_without_metadata = JObj [(''Time Series (60min)'', JObj [good_entry])]"

definition good_observation :: observation where
  "good_observation =
     \<lparr>symbol = ''AAPL'',
      timestamp = \<lparr>year = 2024, month = 1, day = 2, hour = 10, minute = 0, second = 0\<rparr>,
      open_price = Finite 150, high_price = Finite 151, low_price = Finite (299 / 2),
      close_price = Finite (601 / 4), volume = 1200,
      last_refreshed = JStr ''2024-01-02 16:00:00'', time_zone = JStr ''US/Eastern''\<rparr>"

text \<open>
  A response whose second entry has the float infinity as volume (the JSON number
  \<open>1e999\<close> decodes to it).
\<close>

definition infinite_volume_entry :: "string \<times> json" where
  "infinite_volume_entry =
     (''2024-01-02 13:00:00'',
      JObj [(''1. open'', JStr ''150.00''), (''2. high'', JStr ''151.00''),
            (''3. low'', JStr ''149.50''), (''4. close'', JStr ''150.25''),
            (''5. volume'', JFloat PosInf)])"

definition response_with_infinite_volume :: json where
  "response_with_infinite_volume =
     JObj [(''Meta Data'', sample_metadata),
           (''Time Series (60min)'', JObj [good_entry, infinite_volume_entry])]"

text \<open>
  A response whose second entry has a non-numeric volume and, as open price, the
  integer \<open>2^1024\<close>; and a response whose metadata section is a string.
\<close>

definition mixed_entry :: "string \<times> json" where
  "mixed_entry =
     (''2024-01-02 12:00:00'',
      JObj [(''1. open'', JInt (2 ^ 1024)), (''2. high'', JStr ''151.00''),
            (''3. low'', JStr ''149.50''), (''4. close'', JStr ''150.25''),
            (''5. volume'', JStr ''n/a'')])"

definition response_out_of_range :: json where
  "response_out_of_range =
     JObj [(''Meta Data'', sample_metadata),
           (''Time Series (60min)'', JObj [good_entry, mixed_entry])]"

definition response_string_metadata :: json where
  "response_string_metadata =
     JObj [(''Meta Data'', JStr ''none''),
           (''Time Series (60min)'', JObj [good_entry, bad_price_entry])]"


section \<open>ProviderClient: \<^verbatim>\<open>StockDataFetcher.fetch_stock_data\<close>\<close>

text \<open>
  What the network does with the one GET request of a call: either
  \<^verbatim>\<open>requests.get\<close> raises a RequestException (connection error, timeout, ...), or
  a response arrives with a status code and a body. The body is given by what
  \<^verbatim>\<open>response.json()\<close> makes of it: \<open>None\<close> when it raises (the body is not JSON;
  the exception is a ValueError), the decoded value otherwise.
\<close>

datatype http_reply = RequestFailed | Response nat "json option"

text \<open>
  The membership test \<^verbatim>\<open>key in data\<close> on a decoded value: key membership for a
  dictionary, element membership for a list, substring test for a string, and a
  TypeError for \<^verbatim>\<open>None\<close>, booleans and numbers.
\<close>

fun py_in :: "string \<Rightarrow> json \<Rightarrow> pyexc + bool" where
  "py_in k (JObj kvs) = Inr (k \<in> set (map fst kvs))"
| "py_in k (JArr xs) = Inr (JStr k \<in> set xs)"
| "py_in k (JStr s) = Inr (sublist k s)"
| "py_in k v = Inl TypeError"

text \<open>
  The subscript \<^verbatim>\<open>data[key]\<close> with a string key: the value of the key in a
  dictionary (KeyError without it), a TypeError on every other decoded value: a list
  and a string take integer indices only.
\<close>

fun py_subscript :: "json \<Rightarrow> string \<Rightarrow> pyexc + json" where
  "py_subscript (JObj kvs) k = (case map_of kvs k of None \<Rightarrow> Inl KeyError | Some v \<Rightarrow> Inr v)"
| "py_subscript v k = Inl TypeError"

text \<open>
  The body of the \<^verbatim>\<open>try\<close> (lines 19--40). \<^verbatim>\<open>raise_for_status\<close> raises HTTPError,
  a RequestException, exactly for the status codes 400 to 599. The messages logged in
  the two branches of lines 33--38 are built from \<^verbatim>\<open>data['Error Message']\<close> and
  \<^verbatim>\<open>data['Note']\<close>, so each branch evaluates the subscript before it returns.
\<close>

definition fetch_body :: "http_reply \<Rightarrow> pyexc + json option" where
  "fetch_body reply =
     (case reply of
        RequestFailed \<Rightarrow> Inl RequestException
      | Response status decoded \<Rightarrow>
          if 400 \<le> status \<and> status < 600 then Inl RequestException
          else
            (case decoded of
               None \<Rightarrow> Inl ValueError
             | Some data \<Rightarrow>
                 then_do (py_in ''Error Message'' data) (\<lambda>has_error.
                   if has_error
                   then then_do (py_subscript data ''Error Message'') (\<lambda>message. Inr None)
                   else then_do (py_in ''Note'' data) (\<lambda>has_note.
                     if has_note
                     then then_do (py_subscript data ''Note'') (\<lambda>note. Inr None)
                     else Inr (Some data)))))"

text \<open>
  The two handlers (lines 42--47) catch RequestException and ValueError and return
  \<^verbatim>\<open>None\<close>; any other exception leaves the function.
\<close>

definition fetch_stock_data :: "http_reply \<Rightarrow> pyexc + json option" where
  "fetch_stock_data reply =
     (case fetch_body reply of
        Inr r \<Rightarrow> Inr r
      | Inl e \<Rightarrow> if e = RequestException \<or> e = ValueError then Inr None else Inl e)"

section \<open>RecordStore: \<^verbatim>\<open>StockDataFetcher.store_data\<close>\<close>

text \<open>
  A row of the table \<open>stock_data\<close> (created in \<^verbatim>\<open>dags/stock_data_pipeline.py\<close>):
  the nine columns of a data point and \<open>created_at\<close>, which defaults to the time of
  the inserting transaction. The primary key is (symbol, timestamp). Values are kept
  as they are sent; the coercion to the column types is the database's.
\<close>

record stock_row = observation +
  created_at :: nat

definition key_of :: "'a observation_scheme \<Rightarrow> string \<times> datetime" where
  "key_of r = (symbol r, timestamp r)"

text \<open>The rows of a table with a given key.\<close>

definition rows_with :: "string \<times> datetime \<Rightarrow> stock_row list \<Rightarrow> stock_row list" where
  "rows_with k tbl = filter (\<lambda>row. key_of row = k) tbl"

text \<open>
  One execution of the statement \<^verbatim>\<open>insert_sql\<close> (lines 90--102) with the values of
  one record, at transaction time \<open>now\<close>: without a row of the same key, a new row with
  all nine values is inserted; on conflict the row's four prices, volume and
  \<open>last_refreshed\<close> are overwritten, \<open>time_zone\<close> and \<open>created_at\<close> stay.
\<close>

definition do_update :: "observation \<Rightarrow> stock_row \<Rightarrow> stock_row" where
  "do_update r row =
     row\<lparr>open_price := open_price r, high_price := high_price r, low_price := low_price r,
         close_price := close_price r, volume := volume r,
         last_refreshed := last_refreshed r\<rparr>"

definition new_row :: "nat \<Rightarrow> observation \<Rightarrow> stock_row" where
  "new_row now r =
     \<lparr>symbol = symbol r, timestamp = timestamp r, open_price = open_price r,
      high_price = high_price r, low_price = low_price r, close_price = close_price r,
      volume = volume r, last_refreshed = last_refreshed r, time_zone = time_zone r,
      created_at = now\<rparr>"

definition execute_insert :: "nat \<Rightarrow> observation \<Rightarrow> stock_row list \<Rightarrow> stock_row list" where
  "execute_insert now r tbl =
     (if list_ex (\<lambda>row. key_of row = key_of r) tbl
      then map (\<lambda>row. if key_of row = key_of r then do_update r row else row) tbl
      else tbl @ [new_row now r])"

text \<open>
  What the database does during one call of \<open>store_data\<close>: whether the connection and
  cursor are obtained, which records' statements execute without error, whether the
  commit succeeds, and the time of the transaction.
\<close>

record pg_session =
  connects :: bool
  accepts :: "observation \<Rightarrow> bool"
  commits :: bool
  txn_time :: nat

text \<open>
  The loop of line 104 inside the transaction: it works on the transaction's view of
  the table and stops with the database's exception at the first statement that
  fails.
\<close>

fun execute_all :: "pg_session \<Rightarrow> observation list \<Rightarrow> stock_row list \<Rightarrow> pyexc + stock_row list" where
  "execute_all pg [] work = Inr work"
| "execute_all pg (r # rest) work =
     (if accepts pg r then execute_all pg rest (execute_insert (txn_time pg) r work)
      else Inl DatabaseError)"

text \<open>
  The body of the \<^verbatim>\<open>try\<close> (lines 86--122), giving the committed table. Closing the
  cursor and the connection after the commit releases client resources and does not
  raise.
\<close>

definition store_body :: "pg_session \<Rightarrow> observation list \<Rightarrow> stock_row list \<Rightarrow> pyexc + stock_row list" where
  "store_body pg data tbl =
     (if \<not> connects pg then Inl DatabaseError
      else then_do (execute_all pg data tbl) (\<lambda>work.
             if commits pg then Inr work else Inl DatabaseError))"

text \<open>
  \<open>store_data\<close>: the returned flag and the table afterwards. An exception leaves the
  function through the handler of line 124 with nothing committed: the connection is
  dropped and the database discards the open transaction.
\<close>

definition store_data :: "pg_session \<Rightarrow> observation list \<Rightarrow> stock_row list \<Rightarrow> bool \<times> stock_row list" where
  "store_data pg data tbl =
     (if data = [] then (False, tbl)
      else (case store_body pg data tbl of
              Inr tbl' \<Rightarrow> (True, tbl')
            | Inl e \<Rightarrow> (False, tbl)))"

text \<open>The statements of a whole batch, one after the other.\<close>

definition insert_all :: "nat \<Rightarrow> observation list \<Rightarrow> stock_row list \<Rightarrow> stock_row list" where
  "insert_all now data tbl = foldl (\<lambda>t r. execute_insert now r t) tbl data"

section \<open>PipelineRunner: \<^verbatim>\<open>fetch_and_process_stock_data\<close>\<close>

text \<open>The messages the runner logs (the loggers inside the three stages are left out).\<close>

datatype diagnostic =
    ApiKeyNotConfigured
  | ProcessingSymbol string
  | NoDataRetrieved string
  | NoValidData string
  | ProcessedRecords nat string
  | StoreFailed string
  | PipelineCompleted nat nat nat

text \<open>
  The outside world of a run: the reply of the network to a request, given the API key,
  the symbols requested before in the run and the symbol requested; and the database
  session of a store call, given the symbols requested so far.
\<close>

record world =
  network :: "string \<Rightarrow> string list \<Rightarrow> string \<Rightarrow> http_reply"
  database :: "string list \<Rightarrow> pg_session"

text \<open>
  The state of a run: the two counters, and what the run has done so far: the symbols
  it has requested from the provider, the table, and the messages logged.
\<close>

record run_state =
  successful_symbols :: nat
  total_records :: nat
  requested :: "string list"
  table :: "stock_row list"
  logged :: "diagnostic list"

definition upper_char :: "char \<Rightarrow> char" where
  "upper_char c =
     (if (97::nat) \<le> of_char c \<and> of_char c \<le> (122::nat) then char_of (of_char c - (32::nat)) else c)"

text \<open>\<^verbatim>\<open>symbol.strip().upper()\<close>\<close>

definition normalise :: "string \<Rightarrow> string" where
  "normalise entry = map upper_char (py_strip entry)"

text \<open>Truth value of a decoded value, for \<^verbatim>\<open>if not raw_data\<close>.\<close>

fun py_truthy :: "json \<Rightarrow> bool" where
  "py_truthy JNull = False"
| "py_truthy (JBool b) = b"
| "py_truthy (JInt n) = (n \<noteq> 0)"
| "py_truthy (JFloat f) = (f \<noteq> Finite 0)"
| "py_truthy (JStr s) = (s \<noteq> [])"
| "py_truthy (JArr xs) = (xs \<noteq> [])"
| "py_truthy (JObj kvs) = (kvs \<noteq> [])"

definition say :: "diagnostic \<Rightarrow> run_state \<Rightarrow> run_state" where
  "say d st = st\<lparr>logged := logged st @ [d]\<rparr>"

text \<open>
  The body of the loop (lines 140--164) for one entry of the symbol list. An exception
  of \<open>fetch_stock_data\<close> is not caught here and ends the run.
\<close>

definition process_symbol :: "world \<Rightarrow> string \<Rightarrow> run_state \<Rightarrow> string \<Rightarrow> pyexc + run_state" where
  "process_symbol w api_key st entry =
     (let smb = normalise entry in
      if smb = [] then Inr st
      else
        let st1 = say (ProcessingSymbol smb) st;
            reply = network w api_key (requested st1) smb;
            st2 = st1\<lparr>requested := requested st1 @ [smb]\<rparr>
        in then_do (fetch_stock_data reply) (\<lambda>raw_data.
             case raw_data of
               None \<Rightarrow> Inr (say (NoDataRetrieved smb) st2)
             | Some raw \<Rightarrow>
                 if \<not> py_truthy raw then Inr (say (NoDataRetrieved smb) st2)
                 else
                   let parsed_data = parse_stock_data smb raw in
                   if parsed_data = [] then Inr (say (NoValidData smb) st2)
                   else
                     (case store_data (database w (requested st2)) parsed_data (table st2) of
                        (True, tbl) \<Rightarrow>
                          Inr (say (ProcessedRecords (length parsed_data) smb)
                                 (st2\<lparr>successful_symbols := successful_symbols st2 + 1,
                                      total_records := total_records st2 + length parsed_data,
                                      table := tbl\<rparr>))
                      | (False, tbl) \<Rightarrow> Inr (say (StoreFailed smb) (st2\<lparr>table := tbl\<rparr>)))))"

fun process_all :: "world \<Rightarrow> string \<Rightarrow> run_state \<Rightarrow> string list \<Rightarrow> pyexc + run_state" where
  "process_all w api_key st [] = Inr st"
| "process_all w api_key st (entry # rest) =
     then_do (process_symbol w api_key st entry) (\<lambda>st'. process_all w api_key st' rest)"

text \<open>
  The credential check of line 130. The key comes from \<^verbatim>\<open>os.getenv\<close> and may be
  \<^verbatim>\<open>None\<close>.
\<close>

definition key_configured :: "string option \<Rightarrow> bool" where
  "key_configured api_key =
     (case api_key of
        None \<Rightarrow> False
      | Some k \<Rightarrow> k \<noteq> [] \<and> k \<noteq> ''your_alpha_vantage_api_key_here'')"

definition start_state :: "stock_row list \<Rightarrow> run_state" where
  "start_state tbl =
     \<lparr>successful_symbols = 0, total_records = 0, requested = [], table = tbl, logged = []\<rparr>"

text \<open>
  The whole run, started on a table. The function itself returns nothing; the result
  here is the state at its end: the counters, the requests made, the table and the log.
\<close>

definition fetch_and_process_stock_data ::
  "world \<Rightarrow> string option \<Rightarrow> string list \<Rightarrow> stock_row list \<Rightarrow> pyexc + run_state" where
  "fetch_and_process_stock_data w api_key symbols tbl =
     (if \<not> key_configured api_key then Inr (say ApiKeyNotConfigured (start_state tbl))
      else
        then_do (process_all w (the api_key) (start_state tbl) symbols) (\<lambda>st.
          Inr (say (PipelineCompleted (successful_symbols st) (length symbols) (total_records st)) st)))"

section \<open>Further vocabulary\<close>

text \<open>Decoded bodies on which the membership test is defined.\<close>

fun is_container :: "json \<Rightarrow> bool" where
  "is_container (JObj kvs) = True"
| "is_container (JArr xs) = True"
| "is_container (JStr s) = True"
| "is_container v = False"

text \<open>The attempted count of the run summary, when the log holds a summary.\<close>

fun reported_attempted :: "diagnostic list \<Rightarrow> nat option" where
  "reported_attempted [] = None"
| "reported_attempted (PipelineCompleted succeeded attempted records # ds) = Some attempted"
| "reported_attempted (d # ds) = reported_attempted ds"

subsection \<open>Sample sessions and worlds\<close>

text \<open>
  A database session that enforces two of the table's column types: \<open>symbol\<close> is
  VARCHAR(10) and \<open>volume\<close> is BIGINT.
\<close>

definition strict_session :: "nat \<Rightarrow> pg_session" where
  "strict_session t =
     \<lparr>connects = True,
      accepts = (\<lambda>r. length (symbol r) \<le> 10 \<and> - (2 ^ 63) \<le> volume r \<and> volume r < 2 ^ 63),
      commits = True,
      txn_time = t\<rparr>"

definition revised_observation :: observation where
  "revised_observation =
     good_observation\<lparr>open_price := Finite 152, high_price := Finite 153,
       low_price := Finite 151, close_price := Finite (305 / 2), volume := 1500,
       last_refreshed := JStr ''2024-01-02 17:00:00'', time_zone := JStr ''UTC''\<rparr>"

definition oversized_observation :: observation where
  "oversized_observation =
     good_observation\<lparr>timestamp := \<lparr>year = 2024, month = 1, day = 2, hour = 11, minute = 0, second = 0\<rparr>,
       volume := 2 ^ 63\<rparr>"

definition note_with_data :: json where
  "note_with_data =
     JObj [(''Note'', JStr ''Thank you for using Alpha Vantage!''),
           (''Meta Data'', sample_metadata),
           (''Time Series (60min)'', JObj [good_entry])]"

text \<open>
  A world in which the provider answers AAPL with data and every other symbol with a
  rate-limit note, and one in which it answers AAPL with the JSON body \<open>null\<close>.
\<close>

definition scenario_world :: world where
  "scenario_world =
     \<lparr>network = (\<lambda>api_key history smb.
                    if smb = ''AAPL'' then Response 200 (Some response_partly_corrupt)
                    else Response 200 (Some note_with_data)),
      database = (\<lambda>history. strict_session 100)\<rparr>"

definition null_body_world :: world where
  "null_body_world =
     \<lparr>network = (\<lambda>api_key history smb.
                    if smb = ''AAPL'' then Response 200 (Some JNull)
                    else Response 200 (Some response_partly_corrupt)),
      database = (\<lambda>history. strict_session 100)\<rparr>"

section \<open>Properties of the parser\<close>

subsection \<open>Evaluation of the built-ins on the sample values\<close>

lemmas literal_defs =
  float_of_str_def int_of_str_def number_strip_def c_isspace_def sign_of_def floatnumber_def
  max_str_digits_def
  digitpart_def is_digit_def decimal_of_def exponent_of_def nat_of_digits_def digit_val_def
  lower_char_def to_binary64_def float_limit_def

lemma float_of_str_samples:
  "float_of_str ''150.00'' = Inr (Finite 150)"
  "float_of_str ''151.00'' = Inr (Finite 151)"
  "float_of_str ''149.50'' = Inr (Finite (299 / 2))"
  "float_of_str ''150.25'' = Inr (Finite (601 / 4))"
  "float_of_str ''n/a'' = Inl ValueError"
  by (simp_all add: literal_defs)

lemma int_of_str_samples: "int_of_str ''1200'' = Inr 1200"
  by (simp add: literal_defs)

lemma float_limit_pos: "\<not> float_limit \<le> 0"
  by (simp add: float_limit_def)

lemma py_float_zero: "py_float (JInt 0) = Inr (Finite 0)"
  by (simp add: float_limit_pos)

lemma strptime_samples:
  "strptime ''2024-01-02 10:00:00'' =
     Inr \<lparr>year = 2024, month = 1, day = 2, hour = 10, minute = 0, second = 0\<rparr>"
  "strptime ''2024-01-02 11:00:00'' =
     Inr \<lparr>year = 2024, month = 1, day = 2, hour = 11, minute = 0, second = 0\<rparr>"
  "strptime ''2024-01-02 12:00:00'' =
     Inr \<lparr>year = 2024, month = 1, day = 2, hour = 12, minute = 0, second = 0\<rparr>"
  "strptime ''2024-01-02 13:00:00'' =
     Inr \<lparr>year = 2024, month = 1, day = 2, hour = 13, minute = 0, second = 0\<rparr>"
  by code_simp+

subsection \<open>Sequencing and the loop\<close>

lemma then_do_Inr: "then_do m f = Inr y \<longleftrightarrow> (\<exists>x. m = Inr x \<and> f x = Inr y)"
  by (cases m) (simp_all add: then_do_def)

lemma then_do_simps [simp]: "then_do (Inr x) f = f x" "then_do (Inl e) f = Inl e"
  by (simp_all add: then_do_def)

lemma kept_points_simps [simp]:
  "kept_points smb md [] = []"
  "kept_points smb md ((ts, v) # entries) =
     (case data_point smb md ts v of Inr dp \<Rightarrow> [dp] | Inl e \<Rightarrow> []) @ kept_points smb md entries"
  by (simp_all add: kept_points_def)

text \<open>When the loop runs to its end, it has appended exactly the kept points.\<close>

lemma parse_points_Inr:
  "parse_points smb md entries acc = Inr out \<Longrightarrow> out = acc @ kept_points smb md entries"
proof (induction entries arbitrary: acc)
  case Nil
  then show ?case by simp
next
  case (Cons e entries)
  obtain ts v where e: "e = (ts, v)" by (cases e)
  show ?case
  proof (cases "data_point smb md ts v")
    case (Inl x)
    with Cons e show ?thesis by (auto split: if_splits)
  next
    case (Inr dp)
    with Cons.prems e have "parse_points smb md entries (acc @ [dp]) = Inr out" by simp
    from Cons.IH[OF this] show ?thesis using e Inr by simp
  qed
qed

text \<open>It runs to its end when no entry raises anything but ValueError or TypeError.\<close>

lemma parse_points_total:
  "(\<And>ts v e. (ts, v) \<in> set entries \<Longrightarrow> data_point smb md ts v = Inl e
      \<Longrightarrow> e = ValueError \<or> e = TypeError)
   \<Longrightarrow> parse_points smb md entries acc = Inr (acc @ kept_points smb md entries)"
proof (induction entries arbitrary: acc)
  case Nil
  then show ?case by simp
next
  case (Cons e entries)
  obtain ts v where e: "e = (ts, v)" by (cases e)
  have IH: "\<And>acc. parse_points smb md entries acc = Inr (acc @ kept_points smb md entries)"
  proof (rule Cons.IH)
    fix ts' v' x
    assume "(ts', v') \<in> set entries" "data_point smb md ts' v' = Inl x"
    then show "x = ValueError \<or> x = TypeError" using Cons.prems[of ts' v' x] by simp
  qed
  show ?case
  proof (cases "data_point smb md ts v")
    case (Inl x)
    with Cons.prems[of ts v x] e have "x = ValueError \<or> x = TypeError" by simp
    with Inl e IH show ?thesis by auto
  next
    case (Inr dp)
    with e IH show ?thesis by simp
  qed
qed

text \<open>The parser returns nothing, or the kept points of the time series.\<close>

lemma parse_stock_data_cases:
  "parse_stock_data smb raw = [] \<or>
   (\<exists>body md. raw = JObj body \<and> py_get raw ''Meta Data'' (JObj []) = Inr md \<and>
      parse_stock_data smb raw = kept_points smb md (time_series_of raw))"
proof (cases "parse_body smb raw")
  case (Inl e)
  then show ?thesis by (simp add: parse_stock_data_def)
next
  case (Inr out)
  then obtain series md entries where
    s: "py_get raw ''Time Series (60min)'' (JObj []) = Inr series" and
    m: "py_get raw ''Meta Data'' (JObj []) = Inr md" and
    i: "py_items series = Inr entries" and
    p: "parse_points smb md entries [] = Inr out"
    unfolding parse_body_def then_do_Inr by blast
  from s obtain body where raw: "raw = JObj body" by (cases raw) simp_all
  from i have series: "series = JObj entries" by (cases series) simp_all
  have out: "out = kept_points smb md entries" using parse_points_Inr[OF p] by simp
  show ?thesis
  proof (cases "map_of body ''Time Series (60min)''")
    case None
    with s raw series have "entries = []" by simp
    with out Inr show ?thesis by (simp add: parse_stock_data_def)
  next
    case (Some a)
    with s raw series have "time_series_of raw = entries" by (simp add: time_series_of_def)
    with out Inr raw m show ?thesis by (simp add: parse_stock_data_def)
  qed
qed

lemma data_point_Inr:
  assumes "data_point smb md ts v = Inr ob"
  shows "\<exists>fs. v = JObj fs \<and> symbol ob = smb \<and> strptime ts = Inr (timestamp ob) \<and>
           py_float (field_or_zero fs ''1. open'') = Inr (open_price ob) \<and>
           py_float (field_or_zero fs ''2. high'') = Inr (high_price ob) \<and>
           py_float (field_or_zero fs ''3. low'') = Inr (low_price ob) \<and>
           py_float (field_or_zero fs ''4. close'') = Inr (close_price ob) \<and>
           py_int (field_or_zero fs ''5. volume'') = Inr (volume ob)"
proof (cases v)
  case (JObj fs)
  with assms show ?thesis
    unfolding data_point_def then_do_Inr by (auto simp: field_or_zero_def)
qed (use assms in \<open>auto simp: data_point_def then_do_Inr\<close>)

lemma in_kept_points:
  "ob \<in> set (kept_points smb md entries)
   \<Longrightarrow> \<exists>ts v. (ts, v) \<in> set entries \<and> data_point smb md ts v = Inr ob"
proof (induction entries)
  case Nil
  then show ?case by simp
next
  case (Cons e entries)
  obtain ts v where e: "e = (ts, v)" by (cases e)
  from Cons.prems e
  have "data_point smb md ts v = Inr ob \<or> ob \<in> set (kept_points smb md entries)"
    by (auto split: sum.splits)
  then show ?case using Cons.IH e by auto
qed

lemma data_point_convertible: "data_point smb md ts v = Inr ob \<Longrightarrow> convertible (ts, v)"
  by (drule data_point_Inr) (auto simp: price_fields_def volume_field_def)

lemma length_kept_points:
  "length (kept_points smb md entries) \<le> length (filter convertible entries)"
  by (induction entries) (auto split: sum.splits dest: data_point_convertible)

subsection \<open>The parser on the sample responses\<close>

lemmas sample_defs =
  sample_metadata_def good_entry_def entry_without_open_def bad_price_entry_def
  response_missing_open_def response_partly_corrupt_def response_without_metadata_def
  good_observation_def infinite_volume_entry_def response_with_infinite_volume_def
  mixed_entry_def response_out_of_range_def response_string_metadata_def

lemmas sample_evals =
  float_of_str_samples int_of_str_samples float_limit_pos strptime_samples

lemma parse_missing_open:
  "parse_stock_data ''AAPL'' response_missing_open =
     [\<lparr>symbol = ''AAPL'',
       timestamp = \<lparr>year = 2024, month = 1, day = 2, hour = 11, minute = 0, second = 0\<rparr>,
       open_price = Finite 0, high_price = Finite 151, low_price = Finite (299 / 2),
       close_price = Finite (601 / 4), volume = 1200,
       last_refreshed = JStr ''2024-01-02 16:00:00'', time_zone = JStr ''US/Eastern''\<rparr>]"
  by (simp add: parse_stock_data_def parse_body_def data_point_def sample_defs sample_evals)

lemma parse_partly_corrupt:
  "parse_stock_data ''AAPL'' response_partly_corrupt = [good_observation]"
  by (simp add: parse_stock_data_def parse_body_def data_point_def sample_defs sample_evals)

lemma parse_without_metadata:
  "parse_stock_data ''AAPL'' response_without_metadata =
     [good_observation\<lparr>last_refreshed := JNull, time_zone := JNull\<rparr>]"
  by (simp add: parse_stock_data_def parse_body_def data_point_def sample_defs sample_evals)

text \<open>
  An exception other than ValueError and TypeError in one entry leaves the loop, and
  the outer handler returns the empty list whatever the other entries hold. The
  conversion of a float infinity to an integer raises such an exception.
\<close>

lemma parse_points_fatal:
  assumes "(ts, v) \<in> set entries" "data_point smb md ts v = Inl e"
    "e \<noteq> ValueError" "e \<noteq> TypeError"
  shows "\<exists>e'. parse_points smb md entries acc = Inl e'"
  using assms(1)
proof (induction entries arbitrary: acc)
  case Nil
  then show ?case by simp
next
  case (Cons a entries)
  obtain ts' v' where a: "a = (ts', v')" by (cases a)
  show ?case
  proof (cases "a = (ts, v)")
    case True
    with assms(2-4) show ?thesis by simp
  next
    case False
    with Cons.prems have "(ts, v) \<in> set entries" by simp
    from Cons.IH[OF this] a show ?thesis
      by (cases "data_point smb md ts' v'") auto
  qed
qed

lemma fatal_entry_empties_result:
  assumes "(ts, v) \<in> set (time_series_of raw)"
    and "py_get raw ''Meta Data'' (JObj []) = Inr md"
    and "data_point smb md ts v = Inl e" "e \<noteq> ValueError" "e \<noteq> TypeError"
  shows "parse_stock_data smb raw = []"
proof -
  from assms(1) obtain body where b: "raw = JObj body"
    by (cases raw) (simp_all add: time_series_of_def)
  with assms(1) obtain x where x: "map_of body ''Time Series (60min)'' = Some x"
    by (cases "map_of body ''Time Series (60min)''") (simp_all add: time_series_of_def)
  with assms(1) b obtain series where "x = JObj series"
    by (cases x) (simp_all add: time_series_of_def)
  with b x have
    raw: "raw = JObj body" "map_of body ''Time Series (60min)'' = Some (JObj series)"
      "time_series_of raw = series"
    by (simp_all add: time_series_of_def)
  from parse_points_fatal[OF _ assms(3-5), of series "[]"] assms(1) raw
  obtain e' where "parse_points smb md series [] = Inl e'" by auto
  with raw assms(2) show ?thesis
    by (simp add: parse_stock_data_def parse_body_def)
qed

lemma parse_infinite_volume:
  "parse_stock_data ''AAPL'' response_with_infinite_volume = []"
  by (simp add: parse_stock_data_def parse_body_def data_point_def sample_defs sample_evals)

lemma py_float_two_to_1024: "py_float (JInt (2 ^ 1024)) = Inl OverflowError"
  by (simp add: float_limit_def)

lemma parse_out_of_range:
  "parse_stock_data ''AAPL'' response_out_of_range = []"
  by (simp add: parse_stock_data_def parse_body_def data_point_def sample_defs sample_evals
      float_limit_def)

lemma parse_string_metadata:
  "parse_stock_data ''AAPL'' response_string_metadata = []"
  by (simp add: parse_stock_data_def parse_body_def data_point_def sample_defs sample_evals)


subsection \<open>Outcomes of the conversions\<close>

lemma returns_iff: "returns r \<longleftrightarrow> (\<exists>x. r = Inr x)"
  by (cases r) simp_all

lemma strptime_error: "strptime ts = Inl e \<Longrightarrow> e = ValueError"
  by (auto simp: strptime_def split: option.splits if_splits)

lemma float_of_str_error: "float_of_str s = Inl e \<Longrightarrow> e = ValueError"
  by (auto simp: float_of_str_def Let_def split: prod.splits option.splits if_splits)

lemma int_of_str_error: "int_of_str s = Inl e \<Longrightarrow> e = ValueError"
  by (auto simp: int_of_str_def split: prod.splits option.splits list.splits if_splits)

lemma int_of_str_float: "int_of_str s = Inr n \<Longrightarrow> \<exists>f. float_of_str s = Inr f"
proof -
  assume a: "int_of_str s = Inr n"
  obtain neg u where su: "sign_of (number_strip s) = (neg, u)"
    by (cases "sign_of (number_strip s)")
  with a obtain ds where d: "digitpart u = Some (ds, [])"
    by (auto simp: int_of_str_def split: option.splits list.splits if_splits)
  then have "floatnumber u \<noteq> None"
    by (simp add: floatnumber_def decimal_of_def exponent_of_def)
  with su show ?thesis
    by (auto simp: float_of_str_def Let_def)
qed

lemma non_numeric_float:
  "non_numeric v \<Longrightarrow> py_float v = Inl ValueError \<or> py_float v = Inl TypeError"
  by (cases v) simp_all

lemma non_numeric_int:
  "non_numeric v \<Longrightarrow> py_int v = Inl ValueError \<or> py_int v = Inl TypeError"
proof (cases v)
  case (JStr s)
  assume "non_numeric v"
  with JStr have f: "float_of_str s = Inl ValueError" by simp
  show ?thesis
  proof (cases "int_of_str s")
    case (Inl e)
    with int_of_str_error[OF Inl] JStr show ?thesis by simp
  next
    case (Inr n)
    from int_of_str_float[OF Inr] f show ?thesis by simp
  qed
qed simp_all

lemma data_point_Inl:
  "data_point smb (JObj m) ts (JObj fs) = Inl e \<Longrightarrow>
     strptime ts = Inl e \<or>
     py_float (field_or_zero fs ''1. open'') = Inl e \<or>
     py_float (field_or_zero fs ''2. high'') = Inl e \<or>
     py_float (field_or_zero fs ''3. low'') = Inl e \<or>
     py_float (field_or_zero fs ''4. close'') = Inl e \<or>
     py_int (field_or_zero fs ''5. volume'') = Inl e"
  by (auto simp: data_point_def then_do_def field_or_zero_def split: sum.splits)

lemma well_formed_data_point:
  assumes "well_formed (ts, v)"
  shows "\<exists>ob. data_point smb (JObj m) ts v = Inr ob"
proof -
  from assms obtain fs where v: "v = JObj fs" by (cases v) simp_all
  from assms v obtain t op hi lo cl vol where
    "strptime ts = Inr t"
    "py_get v ''1. open'' (JInt 0) = Inr op" "returns (py_float op)"
    "py_get v ''2. high'' (JInt 0) = Inr hi" "returns (py_float hi)"
    "py_get v ''3. low'' (JInt 0) = Inr lo" "returns (py_float lo)"
    "py_get v ''4. close'' (JInt 0) = Inr cl" "returns (py_float cl)"
    "py_get v ''5. volume'' (JInt 0) = Inr vol" "returns (py_int vol)"
    by (auto simp: price_fields_def volume_field_def returns_iff split: option.splits)
  then show ?thesis
    by (auto simp: data_point_def returns_iff)
qed

text \<open>A conversion raises OverflowError only on a number outside its range.\<close>

lemma py_float_error:
  "py_float v = Inl e \<Longrightarrow> e = ValueError \<or> e = TypeError \<or> too_large_for_float v"
  by (cases v) (auto dest: float_of_str_error split: if_splits)

lemma py_int_error:
  "py_int v = Inl e \<Longrightarrow> e = ValueError \<or> e = TypeError \<or> infinite_float v"
proof (cases v)
  case (JFloat f)
  assume "py_int v = Inl e"
  with JFloat show ?thesis by (cases f) auto
qed (auto dest: int_of_str_error)

lemma in_range_price_error:
  assumes "\<not> out_of_range (ts, JObj fs)" "k \<in> set price_fields"
    "py_float (field_or_zero fs k) = Inl e"
  shows "e = ValueError \<or> e = TypeError"
proof (cases "map_of fs k")
  case None
  with assms(3) show ?thesis by (simp add: field_or_zero_def float_limit_pos)
next
  case (Some x)
  from assms(1,2) Some have "\<not> too_large_for_float x"
    by (auto simp: list_ex_iff)
  with assms(3) Some py_float_error[of x e] show ?thesis
    by (auto simp: field_or_zero_def)
qed

lemma in_range_volume_error:
  assumes "\<not> out_of_range (ts, JObj fs)" "py_int (field_or_zero fs volume_field) = Inl e"
  shows "e = ValueError \<or> e = TypeError"
proof (cases "map_of fs volume_field")
  case None
  with assms(2) show ?thesis by (simp add: field_or_zero_def)
next
  case (Some x)
  from assms(1) Some have "\<not> infinite_float x" by simp
  with assms(2) Some py_int_error[of x e] show ?thesis
    by (auto simp: field_or_zero_def)
qed

lemma malformed_not_convertible: "malformed e \<Longrightarrow> \<not> convertible e"
proof -
  assume m: "malformed e"
  obtain ts v where e: "e = (ts, v)" by (cases e)
  with m obtain fs where v: "v = JObj fs" by (cases v) simp_all
  from m e v obtain k x where
    k: "k \<in> set (price_fields @ [volume_field])" "map_of fs k = Some x" "non_numeric x"
    by (auto simp: list_ex_iff split: option.splits)
  show ?thesis
  proof (cases "k = volume_field")
    case True
    with k non_numeric_int[of x] e v show ?thesis by (auto simp: field_or_zero_def)
  next
    case False
    with k have "k \<in> set price_fields" by simp
    moreover have "\<not> returns (py_float (field_or_zero fs k))"
      using k non_numeric_float[of x] by (auto simp: field_or_zero_def)
    ultimately show ?thesis using e v by (auto simp: list_all_iff)
  qed
qed

text \<open>
  A malformed entry without a number out of range makes the loop body raise a
  ValueError or a TypeError, which the inner handler catches.
\<close>

lemma malformed_data_point:
  assumes "malformed (ts, v)" "\<not> out_of_range (ts, v)"
  shows "data_point smb (JObj m) ts v = Inl ValueError \<or> data_point smb (JObj m) ts v = Inl TypeError"
proof (cases "data_point smb (JObj m) ts v")
  case (Inr ob)
  from data_point_convertible[OF Inr] malformed_not_convertible[OF assms(1)] show ?thesis by simp
next
  case (Inl e)
  from assms(1) obtain fs where v: "v = JObj fs" by (cases v) simp_all
  have pf: "\<And>k. k \<in> set price_fields \<Longrightarrow> py_float (field_or_zero fs k) = Inl e
      \<Longrightarrow> e = ValueError \<or> e = TypeError"
    using in_range_price_error assms(2) v by blast
  from data_point_Inl[OF Inl[unfolded v]]
  have "e = ValueError \<or> e = TypeError"
    using strptime_error[of ts e] pf[of "''1. open''"] pf[of "''2. high''"] pf[of "''3. low''"]
      pf[of "''4. close''"] in_range_volume_error[OF assms(2)[unfolded v], of e]
    by (auto simp: price_fields_def volume_field_def)
  with Inl show ?thesis by auto
qed

lemma well_formed_convertible: "well_formed e \<Longrightarrow> convertible e"
proof -
  assume w: "well_formed e"
  obtain ts v where e: "e = (ts, v)" by (cases e)
  with w obtain fs where v: "v = JObj fs" by (cases v) simp_all
  from w e v show ?thesis
    by (auto simp: list_all_iff field_or_zero_def split: option.splits)
qed

lemma well_formed_not_malformed: "well_formed e \<Longrightarrow> \<not> malformed e"
  using malformed_not_convertible well_formed_convertible by blast

text \<open>What a data point holds, stated without the loop body.\<close>

lemma data_point_built_from:
  assumes "data_point smb md ts v = Inr ob"
  shows "built_from smb ob (ts, v)"
proof -
  from data_point_Inr[OF assms] obtain fs where v: "v = JObj fs" and
    f: "symbol ob = smb" "strptime ts = Inr (timestamp ob)"
      "py_float (field_or_zero fs ''1. open'') = Inr (open_price ob)"
      "py_float (field_or_zero fs ''2. high'') = Inr (high_price ob)"
      "py_float (field_or_zero fs ''3. low'') = Inr (low_price ob)"
      "py_float (field_or_zero fs ''4. close'') = Inr (close_price ob)"
      and vol: "py_int (field_or_zero fs ''5. volume'') = Inr (volume ob)"
    by blast
  have p: "price_from fs k x" if "py_float (field_or_zero fs k) = Inr x" for k x
    using that by (cases "map_of fs k") (auto simp: price_from_def field_or_zero_def float_limit_pos)
  have "volume_from fs (volume ob)"
    using vol by (cases "map_of fs ''5. volume''") (auto simp: volume_from_def field_or_zero_def)
  with v f p show ?thesis by simp
qed

lemma kept_points_built_from:
  "\<exists>kept. subseq kept entries \<and> list_all2 (built_from smb) (kept_points smb md entries) kept"
proof (induction entries)
  case Nil
  then show ?case by simp
next
  case (Cons e entries)
  obtain ts v where e: "e = (ts, v)" by (cases e)
  from Cons obtain kept where
    k: "subseq kept entries" "list_all2 (built_from smb) (kept_points smb md entries) kept"
    by blast
  show ?case
  proof (cases "data_point smb md ts v")
    case (Inl x)
    from k(1) have "subseq kept (e # entries)" by (rule list_emb_Cons)
    moreover from Inl k(2) e
    have "list_all2 (built_from smb) (kept_points smb md (e # entries)) kept" by simp
    ultimately show ?thesis by blast
  next
    case (Inr dp)
    with k e data_point_built_from[OF Inr] have "subseq (e # kept) (e # entries)"
      "list_all2 (built_from smb) (kept_points smb md (e # entries)) (e # kept)"
      by simp_all
    then show ?thesis by blast
  qed
qed

lemma kept_points_partition:
  assumes "\<And>e. e \<in> set entries \<Longrightarrow> well_formed e \<or> (malformed e \<and> \<not> out_of_range e)"
  shows "list_all2 (built_from smb) (kept_points smb (JObj m) entries) (filter well_formed entries)"
  using assms
proof (induction entries)
  case Nil
  then show ?case by simp
next
  case (Cons e entries)
  obtain ts v where e: "e = (ts, v)" by (cases e)
  have IH: "list_all2 (built_from smb) (kept_points smb (JObj m) entries) (filter well_formed entries)"
    by (rule Cons.IH) (simp add: Cons.prems)
  from Cons.prems[of e] have "well_formed e \<or> (malformed e \<and> \<not> out_of_range e)" by simp
  then show ?case
  proof
    assume w: "well_formed e"
    with well_formed_data_point[of ts v smb m] e obtain ob where
      d: "data_point smb (JObj m) ts v = Inr ob" by auto
    from data_point_built_from[OF d] w e d IH show ?thesis by simp
  next
    assume b: "malformed e \<and> \<not> out_of_range e"
    then have "\<not> well_formed e" using well_formed_not_malformed by blast
    moreover from malformed_data_point[of ts v smb m] b e
    have "\<exists>x. data_point smb (JObj m) ts v = Inl x" by auto
    ultimately show ?thesis using e IH by auto
  qed
qed

lemma data_point_metadata:
  "data_point smb (JObj m) ts v = Inr ob \<Longrightarrow>
     last_refreshed ob = (case map_of m ''3. Last Refreshed'' of None \<Rightarrow> JNull | Some x \<Rightarrow> x) \<and>
     time_zone ob = (case map_of m ''5. Time Zone'' of None \<Rightarrow> JNull | Some x \<Rightarrow> x)"
  unfolding data_point_def then_do_Inr by auto

lemma kept_points_metadata:
  "list_all (carries_metadata m) (kept_points smb (JObj m) entries)"
proof -
  have "carries_metadata m ob" if "ob \<in> set (kept_points smb (JObj m) entries)" for ob
  proof -
    from in_kept_points[OF that] obtain ts v where "data_point smb (JObj m) ts v = Inr ob"
      by blast
    from data_point_metadata[OF this] show ?thesis by (simp add: carries_metadata_def)
  qed
  then show ?thesis by (simp add: list_all_iff)
qed

text \<open>
  For a response whose metadata section is a dictionary or absent and whose entries are
  each well-formed, or malformed without a number out of range, the parser returns the
  observations built from the well-formed entries, in order, each carrying the two
  metadata entries; the others are skipped.
\<close>

lemma parse_skips_malformed_in_range:
  assumes "raw = JObj body"
    and "map_of body ''Time Series (60min)'' = Some (JObj series)"
    and "metadata_of body = Some (JObj m)"
    and "\<forall>e \<in> set series. well_formed e \<or> (malformed e \<and> \<not> out_of_range e)"
  shows "list_all2 (built_from smb) (parse_stock_data smb raw) (filter well_formed series) \<and>
         list_all (carries_metadata m) (parse_stock_data smb raw) \<and>
         length (parse_stock_data smb raw) = length series - length (filter malformed series)"
proof -
  from assms(3) have g: "py_get raw ''Meta Data'' (JObj []) = Inr (JObj m)"
    unfolding assms(1) by (auto simp: metadata_of_def split: option.splits json.splits)
  have "parse_points smb (JObj m) series [] = Inr ([] @ kept_points smb (JObj m) series)"
  proof (rule parse_points_total)
    fix ts v e
    assume "(ts, v) \<in> set series" "data_point smb (JObj m) ts v = Inl e"
    with assms(4) well_formed_data_point[of ts v smb m] malformed_data_point[of ts v smb m]
    show "e = ValueError \<or> e = TypeError" by auto
  qed
  with g assms(1,2) have p: "parse_stock_data smb raw = kept_points smb (JObj m) series"
    by (simp add: parse_stock_data_def parse_body_def)
  have part: "list_all2 (built_from smb) (kept_points smb (JObj m) series) (filter well_formed series)"
    by (rule kept_points_partition) (use assms(4) in blast)
  have "filter well_formed series = filter (\<lambda>e. \<not> malformed e) series"
  proof (rule filter_cong)
    fix e assume "e \<in> set series"
    with assms(4) well_formed_not_malformed[of e] show "well_formed e = (\<not> malformed e)" by blast
  qed simp
  then have "length (filter well_formed series) = length series - length (filter malformed series)"
    using sum_length_filter_compl[of malformed series] by simp
  moreover from part have "length (kept_points smb (JObj m) series) = length (filter well_formed series)"
    by (rule list_all2_lengthD)
  ultimately show ?thesis using p part kept_points_metadata[of m smb series] by simp
qed

lemma sample_entries:
  "well_formed good_entry" "malformed bad_price_entry" "\<not> out_of_range bad_price_entry"
  "malformed mixed_entry" "out_of_range mixed_entry"
  by (simp_all add: good_entry_def bad_price_entry_def mixed_entry_def price_fields_def
      volume_field_def sample_evals float_limit_def)


section \<open>Claims about the parser\<close>

text \<open>
  Claim C1, as the code has it. The observations the parser returns are built, one by
  one and in order, from a subsequence of the time-series entries: each from an entry
  that is a field set whose timestamp parses in the wire format, the observation
  holding for each of open, high, low, close and volume the conversion of the entry's
  field when the field is present, and 0 when it is absent (the default of
  \<^verbatim>\<open>values.get\<close>). So an entry with a present field that does not convert, or with
  a timestamp that does not parse, has no observation in the output, while an absent
  field is defaulted to 0.
\<close>

theorem parse_builds_from_entries:
  "\<exists>kept. subseq kept (time_series_of raw) \<and>
          list_all2 (built_from smb) (parse_stock_data smb raw) kept"
proof -
  consider (empty) "parse_stock_data smb raw = []"
    | (kept) md where "parse_stock_data smb raw = kept_points smb md (time_series_of raw)"
    using parse_stock_data_cases[of smb raw] by blast
  then show ?thesis
  proof cases
    case empty
    have "subseq [] (time_series_of raw)" by simp
    with empty show ?thesis by (intro exI[of _ "[]"]) simp
  next
    case kept
    with kept_points_built_from[of "time_series_of raw" smb md] show ?thesis by simp
  qed
qed

text \<open>
  Witness for C1: the one observation returned for the sample response without an
  open price is built from its one entry.
\<close>

theorem parse_builds_from_entries_witness:
  "list_all2 (built_from ''AAPL'') (parse_stock_data ''AAPL'' response_missing_open)
     [entry_without_open]"
proof -
  from parse_builds_from_entries[of response_missing_open "''AAPL''"] obtain kept where
    k: "subseq kept (time_series_of response_missing_open)"
      "list_all2 (built_from ''AAPL'') (parse_stock_data ''AAPL'' response_missing_open) kept"
    by blast
  have t: "time_series_of response_missing_open = [entry_without_open]"
    by (simp add: time_series_of_def response_missing_open_def)
  from k(2) have "length kept = 1"
    by (auto dest: list_all2_lengthD simp: parse_missing_open)
  with k(1) t have "kept = [entry_without_open]"
    by (intro subseq_same_length) simp_all
  with k(2) show ?thesis by simp
qed

text \<open>
  Counterexample to C1 as stated: an entry without the field \<open>1. open\<close> is not
  dropped; the parser returns an observation for it whose open price is 0.
\<close>

theorem missing_price_field_yields_zero_price:
  "time_series_of response_missing_open = [entry_without_open] \<and>
   py_get (snd entry_without_open) ''1. open'' JNull = Inr JNull \<and>
   \<not> well_formed entry_without_open \<and>
   map open_price (parse_stock_data ''AAPL'' response_missing_open) = [Finite 0]"
proof -
  have "time_series_of response_missing_open = [entry_without_open]"
    by (simp add: time_series_of_def response_missing_open_def)
  moreover have "py_get (snd entry_without_open) ''1. open'' JNull = Inr JNull"
    by (simp add: entry_without_open_def)
  moreover have "\<not> well_formed entry_without_open"
    by (simp add: entry_without_open_def price_fields_def)
  moreover have "map open_price (parse_stock_data ''AAPL'' response_missing_open) = [Finite 0]"
    by (simp add: parse_missing_open)
  ultimately show ?thesis by blast
qed

text \<open>
  Claim C3 does not hold of the code. The inner handler of the loop catches only
  ValueError and TypeError. The first sample response has two entries: the first is
  well-formed, the second has a non-numeric volume, and its open price is the integer
  \<open>2^1024\<close>, whose conversion raises OverflowError before the volume is reached. The
  exception leaves the loop, and the outer handler returns the empty sequence: the
  well-formed entry is lost as well, where the claim has one observation. The same
  happens in the second sample response, a well-formed entry and an entry with a
  non-numeric price beside a metadata section that is a string: there the loop body
  raises AttributeError at the first entry.
\<close>

theorem partial_corruption_empties_result:
  "time_series_of response_out_of_range = [good_entry, mixed_entry] \<and>
   well_formed good_entry \<and> malformed mixed_entry \<and>
   parse_stock_data ''AAPL'' response_out_of_range = [] \<and>
   time_series_of response_string_metadata = [good_entry, bad_price_entry] \<and>
   malformed bad_price_entry \<and>
   parse_stock_data ''AAPL'' response_string_metadata = []"
proof -
  have "time_series_of response_out_of_range = [good_entry, mixed_entry]"
    by (simp add: time_series_of_def response_out_of_range_def)
  moreover have "time_series_of response_string_metadata = [good_entry, bad_price_entry]"
    by (simp add: time_series_of_def response_string_metadata_def)
  ultimately show ?thesis
    by (simp add: sample_entries parse_out_of_range parse_string_metadata)
qed

text \<open>
  Claim C5, as the code has it. A response without the time-series section (or one
  that is not a dictionary at all) yields the empty sequence. A response without the
  metadata section is parsed as if that section were an empty dictionary: the result is
  the same, and every observation carries \<^verbatim>\<open>None\<close> as \<open>last_refreshed\<close> and
  \<open>time_zone\<close>; the result is not empty in general. The parser is a total function,
  so neither case raises.
\<close>

theorem parse_absent_sections:
  "((\<forall>body. raw = JObj body \<longrightarrow> map_of body ''Time Series (60min)'' = None)
      \<longrightarrow> parse_stock_data smb raw = []) \<and>
   (map_of body ''Meta Data'' = None \<longrightarrow>
      parse_stock_data smb (JObj body) =
        parse_stock_data smb (JObj (body @ [(''Meta Data'', JObj [])])) \<and>
      (\<forall>ob \<in> set (parse_stock_data smb (JObj body)).
         last_refreshed ob = JNull \<and> time_zone ob = JNull))"
proof (intro conjI impI)
  assume a: "\<forall>body. raw = JObj body \<longrightarrow> map_of body ''Time Series (60min)'' = None"
  show "parse_stock_data smb raw = []"
  proof (cases raw)
    case (JObj body)
    with a show ?thesis
      by (cases "map_of body ''Meta Data''") (simp_all add: parse_stock_data_def parse_body_def)
  qed (simp_all add: parse_stock_data_def parse_body_def)
next
  assume n: "map_of body ''Meta Data'' = None"
  then show "parse_stock_data smb (JObj body) =
        parse_stock_data smb (JObj (body @ [(''Meta Data'', JObj [])]))"
    by (simp add: parse_stock_data_def parse_body_def map_add_def split: option.splits)
  show "\<forall>ob \<in> set (parse_stock_data smb (JObj body)).
         last_refreshed ob = JNull \<and> time_zone ob = JNull"
  proof
    fix ob assume ob: "ob \<in> set (parse_stock_data smb (JObj body))"
    with parse_stock_data_cases[of smb "JObj body"] n
    have "ob \<in> set (kept_points smb (JObj []) (time_series_of (JObj body)))"
      by auto
    from in_kept_points[OF this] obtain ts v where "data_point smb (JObj []) ts v = Inr ob"
      by blast
    from data_point_metadata[OF this] show "last_refreshed ob = JNull \<and> time_zone ob = JNull"
      by simp
  qed
qed

text \<open>
  Witness for C5: a response that is only an informational message, and the sample
  response that has a time series but no metadata.
\<close>

theorem parse_absent_sections_witness:
  "parse_stock_data ''AAPL'' (JObj [(''Information'', JStr ''Thank you'')]) = [] \<and>
   parse_stock_data ''AAPL'' response_without_metadata =
     parse_stock_data ''AAPL''
       (JObj ([(''Time Series (60min)'', JObj [good_entry])] @ [(''Meta Data'', JObj [])])) \<and>
   list_all (\<lambda>ob. last_refreshed ob = JNull \<and> time_zone ob = JNull)
     (parse_stock_data ''AAPL'' response_without_metadata)"
proof -
  have 1: "\<forall>body. JObj [(''Information'', JStr ''Thank you'')] = JObj body
            \<longrightarrow> map_of body ''Time Series (60min)'' = None"
    by simp
  have 2: "map_of [(''Time Series (60min)'', JObj [good_entry])] ''Meta Data'' = None"
    by simp
  from parse_absent_sections[of "JObj [(''Information'', JStr ''Thank you'')]" "''AAPL''"
      "[(''Time Series (60min)'', JObj [good_entry])]"] 1 2
  show ?thesis
    unfolding response_without_metadata_def list_all_iff by blast
qed

text \<open>
  Counterexample to C5 as stated: the sample response has no metadata section, and
  the parser returns an observation for its entry, not the empty sequence.
\<close>

theorem absent_metadata_yields_observations:
  "py_get response_without_metadata ''Meta Data'' JNull = Inr JNull \<and>
   parse_stock_data ''AAPL'' response_without_metadata =
     [good_observation\<lparr>last_refreshed := JNull, time_zone := JNull\<rparr>] \<and>
   parse_stock_data ''AAPL'' response_without_metadata \<noteq> []"
proof -
  have "py_get response_without_metadata ''Meta Data'' JNull = Inr JNull"
    by (simp add: response_without_metadata_def)
  then show ?thesis by (simp add: parse_without_metadata)
qed

section \<open>Properties of the provider client\<close>

lemma py_in_scalar: "\<not> is_container data \<Longrightarrow> py_in k data = Inl TypeError"
  by (cases data) simp_all

lemma py_subscript_member:
  "k \<in> fst ` set kvs \<Longrightarrow> \<exists>v. py_subscript (JObj kvs) k = Inr v"
  by (cases "map_of kvs k") (simp_all add: map_of_eq_None_iff)




lemma fetch_error_message:
  assumes "''Error Message'' \<in> fst ` set kvs"
  shows "fetch_stock_data (Response status (Some (JObj kvs))) = Inr None"
proof -
  from py_subscript_member[OF assms] obtain v where
    "py_subscript (JObj kvs) ''Error Message'' = Inr v" by blast
  with assms show ?thesis
    by (simp add: fetch_stock_data_def fetch_body_def)
qed

lemma fetch_note:
  assumes "''Note'' \<in> fst ` set kvs"
  shows "fetch_stock_data (Response status (Some (JObj kvs))) = Inr None"
proof (cases "''Error Message'' \<in> fst ` set kvs")
  case True
  then show ?thesis by (rule fetch_error_message)
next
  case False
  from py_subscript_member[OF assms] obtain v where
    "py_subscript (JObj kvs) ''Note'' = Inr v" by blast
  with assms False show ?thesis
    by (simp add: fetch_stock_data_def fetch_body_def)
qed


text \<open>
  The two handlers do not catch a TypeError: a body that decodes to \<^verbatim>\<open>None\<close>, a
  boolean or a number raises it in the membership test.
\<close>

lemma fetch_scalar:
  "\<not> is_container data \<Longrightarrow> \<not> (400 \<le> status \<and> status < 600)
   \<Longrightarrow> fetch_stock_data (Response status (Some data)) = Inl TypeError"
  by (simp add: fetch_stock_data_def fetch_body_def py_in_scalar)

section \<open>Properties of the record store\<close>

lemma key_of_do_update [simp]: "key_of (do_update r row) = key_of row"
  by (simp add: key_of_def do_update_def)

lemma key_of_new_row [simp]: "key_of (new_row now r) = key_of r"
  by (simp add: key_of_def new_row_def)

lemma created_at_do_update [simp]: "created_at (do_update r row) = created_at row"
  by (simp add: do_update_def)

lemma list_ex_rows_with: "list_ex (\<lambda>row. key_of row = k) tbl \<longleftrightarrow> rows_with k tbl \<noteq> []"
  by (auto simp: rows_with_def list_ex_iff filter_empty_conv)

lemma rows_with_execute_insert:
  "rows_with k (execute_insert now r tbl) =
     (if key_of r = k
      then (if rows_with k tbl = [] then [new_row now r] else map (do_update r) (rows_with k tbl))
      else rows_with k tbl)"
proof (cases "list_ex (\<lambda>row. key_of row = key_of r) tbl")
  case True
  have "filter (\<lambda>row. key_of row = k) (map (\<lambda>row. if key_of row = key_of r then do_update r row else row) tbl)
        = (if key_of r = k then map (do_update r) (filter (\<lambda>row. key_of row = k) tbl)
           else filter (\<lambda>row. key_of row = k) tbl)"
    by (induction tbl) auto
  with True show ?thesis
    by (auto simp: execute_insert_def list_ex_rows_with rows_with_def)
next
  case False
  then have "rows_with (key_of r) tbl = []" by (simp add: list_ex_rows_with)
  with False show ?thesis
    by (auto simp: execute_insert_def rows_with_def)
qed

lemma keys_execute_insert:
  "map key_of (execute_insert now r tbl) =
     (if key_of r \<in> set (map key_of tbl) then map key_of tbl else map key_of tbl @ [key_of r])"
proof -
  have "map key_of (map (\<lambda>row. if key_of row = key_of r then do_update r row else row) tbl) = map key_of tbl"
    by (induction tbl) auto
  then show ?thesis
    by (force simp: execute_insert_def list_ex_iff)
qed

lemma distinct_execute_insert:
  "distinct (map key_of tbl) \<Longrightarrow> distinct (map key_of (execute_insert now r tbl))"
  by (simp add: keys_execute_insert)

lemma insert_all_simps [simp]:
  "insert_all now [] tbl = tbl"
  "insert_all now (r # data) tbl = insert_all now data (execute_insert now r tbl)"
  by (simp_all add: insert_all_def)

lemma insert_all_append:
  "insert_all now (xs @ ys) tbl = insert_all now ys (insert_all now xs tbl)"
  by (simp add: insert_all_def)

lemma distinct_insert_all:
  "distinct (map key_of tbl) \<Longrightarrow> distinct (map key_of (insert_all now data tbl))"
  by (induction data arbitrary: tbl) (simp_all add: distinct_execute_insert)

lemma rows_with_distinct:
  "distinct (map key_of tbl) \<Longrightarrow> rows_with k tbl = [] \<or> (\<exists>row. rows_with k tbl = [row])"
proof (induction tbl)
  case Nil
  then show ?case by (simp add: rows_with_def)
next
  case (Cons a tbl)
  then have d: "key_of a \<notin> key_of ` set tbl" and IH: "rows_with k tbl = [] \<or> (\<exists>row. rows_with k tbl = [row])"
    by simp_all
  show ?case
  proof (cases "key_of a = k")
    case True
    have "rows_with k tbl = []"
      unfolding rows_with_def filter_empty_conv
    proof
      fix x assume "x \<in> set tbl"
      then have "key_of x \<in> key_of ` set tbl" by simp
      with d True show "key_of x \<noteq> k" by metis
    qed
    with True show ?thesis by (simp add: rows_with_def)
  next
    case False
    with IH show ?thesis by (simp add: rows_with_def)
  qed
qed

lemma rows_with_insert_all_other:
  "\<forall>r \<in> set data. key_of r \<noteq> k \<Longrightarrow> rows_with k (insert_all now data tbl) = rows_with k tbl"
  by (induction data arbitrary: tbl) (simp_all add: rows_with_execute_insert)

lemma rows_with_insert_all_kept:
  "rows_with k tbl = [row0] \<Longrightarrow>
     \<exists>row. rows_with k (insert_all now data tbl) = [row] \<and> created_at row = created_at row0"
proof (induction data arbitrary: tbl row0)
  case Nil
  then show ?case by simp
next
  case (Cons r data)
  obtain row' where "rows_with k (execute_insert now r tbl) = [row']" "created_at row' = created_at row0"
    using Cons.prems by (cases "key_of r = k") (auto simp: rows_with_execute_insert)
  with Cons.IH[of "execute_insert now r tbl" row'] show ?case by auto
qed

lemma rows_with_insert_all_new:
  "rows_with k tbl = [] \<Longrightarrow> \<exists>r \<in> set data. key_of r = k \<Longrightarrow>
     \<exists>row. rows_with k (insert_all now data tbl) = [row] \<and> created_at row = now"
proof (induction data arbitrary: tbl)
  case Nil
  then show ?case by simp
next
  case (Cons r data)
  show ?case
  proof (cases "key_of r = k")
    case True
    with Cons.prems have "rows_with k (execute_insert now r tbl) = [new_row now r]"
      by (simp add: rows_with_execute_insert)
    from rows_with_insert_all_kept[OF this, of now data] show ?thesis
      by (simp add: new_row_def)
  next
    case False
    with Cons.prems have "rows_with k (execute_insert now r tbl) = []" "\<exists>r \<in> set data. key_of r = k"
      by (auto simp: rows_with_execute_insert)
    from Cons.IH[OF this] show ?thesis by simp
  qed
qed

lemma rows_with_insert_all_present:
  assumes "distinct (map key_of tbl)" "r \<in> set data"
  shows "\<exists>row. rows_with (key_of r) (insert_all now data tbl) = [row]"
proof -
  from rows_with_distinct[OF assms(1), of "key_of r"]
  show ?thesis
  proof
    assume "rows_with (key_of r) tbl = []"
    from rows_with_insert_all_new[OF this, of data now] assms(2) show ?thesis by blast
  next
    assume "\<exists>row. rows_with (key_of r) tbl = [row]"
    then obtain row0 where "rows_with (key_of r) tbl = [row0]" by blast
    from rows_with_insert_all_kept[OF this, of now data] show ?thesis by blast
  qed
qed

lemma rows_with_insert_all_last:
  assumes "rows_with (key_of r) tbl = [row0]" "\<forall>x \<in> set post. key_of x \<noteq> key_of r"
  shows "\<exists>row. rows_with (key_of r) (insert_all now (pre @ r # post) tbl) = [do_update r row] \<and>
               created_at row = created_at row0"
proof -
  from rows_with_insert_all_kept[OF assms(1), of now pre] obtain row where
    row: "rows_with (key_of r) (insert_all now pre tbl) = [row]" "created_at row = created_at row0"
    by blast
  then have "rows_with (key_of r) (execute_insert now r (insert_all now pre tbl)) = [do_update r row]"
    by (simp add: rows_with_execute_insert)
  with assms(2) have "rows_with (key_of r) (insert_all now (pre @ r # post) tbl) = [do_update r row]"
    by (simp add: insert_all_append rows_with_insert_all_other)
  with row show ?thesis by blast
qed

lemma execute_all_eq:
  "execute_all pg data work =
     (if list_all (accepts pg) data then Inr (insert_all (txn_time pg) data work) else Inl DatabaseError)"
  by (induction data arbitrary: work) simp_all

lemma store_data_eq:
  "store_data pg data tbl =
     (if data \<noteq> [] \<and> connects pg \<and> list_all (accepts pg) data \<and> commits pg
      then (True, insert_all (txn_time pg) data tbl) else (False, tbl))"
  by (simp add: store_data_def store_body_def execute_all_eq)

lemma store_data_True:
  "store_data pg data tbl = (True, tbl') \<Longrightarrow> tbl' = insert_all (txn_time pg) data tbl \<and> data \<noteq> []"
  by (auto simp: store_data_eq split: if_splits)

lemma rows_with_insert_all_nonempty:
  "rows_with k tbl \<noteq> [] \<Longrightarrow> rows_with k (insert_all now data tbl) \<noteq> []"
  by (induction data arbitrary: tbl) (simp_all add: rows_with_execute_insert)

lemma rows_with_insert_all_member:
  "r \<in> set data \<Longrightarrow> rows_with (key_of r) (insert_all now data tbl) \<noteq> []"
proof (induction data arbitrary: tbl)
  case Nil
  then show ?case by simp
next
  case (Cons a data)
  show ?case
  proof (cases "a = r")
    case True
    have "rows_with (key_of r) (execute_insert now r tbl) \<noteq> []"
      by (simp add: rows_with_execute_insert)
    with True show ?thesis by (simp add: rows_with_insert_all_nonempty)
  next
    case False
    with Cons show ?thesis by simp
  qed
qed

section \<open>Properties of the runner\<close>

lemma say_simps [simp]:
  "successful_symbols (say d st) = successful_symbols st"
  "total_records (say d st) = total_records st"
  "requested (say d st) = requested st"
  "table (say d st) = table st"
  "logged (say d st) = logged st @ [d]"
  by (simp_all add: say_def)

lemma process_symbol_empty: "normalise entry = [] \<Longrightarrow> process_symbol w k st entry = Inr st"
  by (simp add: process_symbol_def)

lemma process_symbol_no_data:
  assumes "normalise entry \<noteq> []"
    and "fetch_stock_data (network w k (requested st) (normalise entry)) = Inr None"
  shows "process_symbol w k st entry =
           Inr (say (NoDataRetrieved (normalise entry))
                  ((say (ProcessingSymbol (normalise entry)) st)
                     \<lparr>requested := requested st @ [normalise entry]\<rparr>))"
  using assms by (simp add: process_symbol_def Let_def)

lemma process_symbol_requested_aux:
  "(case process_symbol w k st entry of
      Inl e \<Rightarrow> True
    | Inr st' \<Rightarrow>
        requested st' = requested st @ (if normalise entry = [] then [] else [normalise entry]))"
  by (simp add: process_symbol_def Let_def then_do_def
      split: sum.split option.split prod.split bool.split)

lemma process_symbol_requested:
  assumes "process_symbol w k st entry = Inr st'"
  shows "requested st' = requested st @ (if normalise entry = [] then [] else [normalise entry])"
  using process_symbol_requested_aux[where w=w and k=k and st=st and entry=entry] assms by simp

lemma process_symbol_returns:
  assumes "returns (fetch_stock_data (network w k (requested st) (normalise entry)))"
  shows "\<exists>st'. process_symbol w k st entry = Inr st'"
proof (cases "normalise entry = []")
  case True
  then show ?thesis by (simp add: process_symbol_empty)
next
  case False
  from assms obtain raw where "fetch_stock_data (network w k (requested st) (normalise entry)) = Inr raw"
    by (auto simp: returns_iff)
  with False show ?thesis
    by (auto simp: process_symbol_def Let_def split: option.splits prod.splits bool.splits)
qed

lemma process_all_requested:
  "process_all w k st symbols = Inr st' \<Longrightarrow>
     requested st' = requested st @ filter (\<lambda>s. s \<noteq> []) (map normalise symbols)"
proof (induction symbols arbitrary: st)
  case Nil
  then show ?case by simp
next
  case (Cons entry symbols)
  from Cons.prems obtain st1 where
    1: "process_symbol w k st entry = Inr st1" and 2: "process_all w k st1 symbols = Inr st'"
    by (auto simp: then_do_Inr)
  from Cons.IH[OF 2] process_symbol_requested[OF 1] show ?case by simp
qed

lemma process_all_returns:
  assumes "\<And>h s. returns (fetch_stock_data (network w k h s))"
  shows "\<exists>st'. process_all w k st symbols = Inr st'"
proof (induction symbols arbitrary: st)
  case Nil
  then show ?case by simp
next
  case (Cons entry symbols)
  from process_symbol_returns[OF assms] obtain st1 where "process_symbol w k st entry = Inr st1"
    by blast
  with Cons.IH[of st1] show ?case by simp
qed

text \<open>
  When the loop body returns, it has either left both counters as they were, or the
  store call of this entry reported success and the counters grew by one and by the
  number of records parsed for this entry.
\<close>

lemma process_symbol_counters_aux:
  "(case process_symbol w k st entry of
      Inl e \<Rightarrow> True
    | Inr st' \<Rightarrow>
        (successful_symbols st' = successful_symbols st \<and> total_records st' = total_records st) \<or>
        (\<exists>raw tbl.
           fetch_stock_data (network w k (requested st) (normalise entry)) = Inr (Some raw) \<and>
           store_data (database w (requested st @ [normalise entry]))
             (parse_stock_data (normalise entry) raw) (table st) = (True, tbl) \<and>
           successful_symbols st' = successful_symbols st + 1 \<and>
           total_records st' = total_records st + length (parse_stock_data (normalise entry) raw) \<and>
           table st' = tbl))"
  by (simp add: process_symbol_def Let_def then_do_def
      split: sum.split option.split prod.split bool.split)

subsection \<open>The stages on the sample values\<close>

lemma normalise_samples:
  "normalise ''aapl '' = ''AAPL''"
  "normalise ''AAPL'' = ''AAPL''"
  "normalise ''msft'' = ''MSFT''"
  "normalise ''MSFT'' = ''MSFT''"
  "normalise ''  '' = []"
  by code_simp+

lemma fetch_samples:
  "fetch_stock_data (Response 200 (Some response_partly_corrupt)) = Inr (Some response_partly_corrupt)"
  "fetch_stock_data (Response 300 (Some response_partly_corrupt)) = Inr (Some response_partly_corrupt)"
  "fetch_stock_data (Response 200 (Some note_with_data)) = Inr None"
  "fetch_stock_data (Response 200 (Some JNull)) = Inl TypeError"
  "fetch_stock_data (Response 200 (Some (JArr [JStr ''Note'']))) = Inl TypeError"
  by (simp_all add: fetch_stock_data_def fetch_body_def response_partly_corrupt_def
      note_with_data_def)

lemma parse_note_with_data:
  "parse_stock_data ''MSFT'' note_with_data = [good_observation\<lparr>symbol := ''MSFT''\<rparr>]"
  by (simp add: parse_stock_data_def parse_body_def data_point_def sample_defs sample_evals
      note_with_data_def)

lemma strict_session_samples:
  "connects (strict_session t)" "commits (strict_session t)" "txn_time (strict_session t) = t"
  "accepts (strict_session t) good_observation"
  "accepts (strict_session t) revised_observation"
  "\<not> accepts (strict_session t) oversized_observation"
  by (simp_all add: strict_session_def good_observation_def revised_observation_def
      oversized_observation_def)

lemma store_good_observation:
  "store_data (strict_session t) [good_observation] [] = (True, [new_row t good_observation])"
  by (simp add: store_data_eq strict_session_samples execute_insert_def)

lemma truthy_samples: "py_truthy response_partly_corrupt"
  by (simp add: response_partly_corrupt_def)

lemma scenario_run:
  "fetch_and_process_stock_data scenario_world (Some ''demo'') [''aapl '', ''  '', ''MSFT''] [] =
     Inr \<lparr>successful_symbols = 1, total_records = 1, requested = [''AAPL'', ''MSFT''],
          table = [new_row 100 good_observation],
          logged = [ProcessingSymbol ''AAPL'', ProcessedRecords 1 ''AAPL'',
                    ProcessingSymbol ''MSFT'', NoDataRetrieved ''MSFT'',
                    PipelineCompleted 1 3 1]\<rparr>"
  by (simp add: fetch_and_process_stock_data_def key_configured_def start_state_def
      process_symbol_def normalise_samples scenario_world_def fetch_samples truthy_samples
      parse_partly_corrupt store_good_observation say_def Let_def)

section \<open>Claims about the provider client\<close>




text \<open>
  Claim C9. A decoded body that is a dictionary with a \<open>Note\<close> field makes
  \<open>fetch_stock_data\<close> return \<^verbatim>\<open>None\<close> whatever else the body holds, and the loop
  body then leaves both counters and the table as they were: the symbol contributes
  no record.
\<close>

theorem rate_limit_note_discards_data:
  assumes "''Note'' \<in> fst ` set kvs"
    and "normalise entry \<noteq> []"
    and "network w api_key (requested st) (normalise entry) = Response status (Some (JObj kvs))"
  shows "fetch_stock_data (Response status (Some (JObj kvs))) = Inr None \<and>
         (\<exists>st'. process_symbol w api_key st entry = Inr st' \<and>
            successful_symbols st' = successful_symbols st \<and>
            total_records st' = total_records st \<and>
            table st' = table st)"
proof -
  from assms(1) have f: "fetch_stock_data (Response status (Some (JObj kvs))) = Inr None"
    by (rule fetch_note)
  with assms(3) have "fetch_stock_data (network w api_key (requested st) (normalise entry)) = Inr None"
    by simp
  from process_symbol_no_data[OF assms(2) this] f show ?thesis by simp
qed

text \<open>
  Witness for C9: the note arrives together with a complete time series, which the
  parser would have turned into an observation.
\<close>

theorem rate_limit_note_discards_data_witness:
  "parse_stock_data ''MSFT'' note_with_data \<noteq> [] \<and>
   fetch_stock_data (Response 200 (Some note_with_data)) = Inr None \<and>
   (\<exists>st'. process_symbol scenario_world ''demo'' (start_state []) ''msft'' = Inr st' \<and>
      successful_symbols st' = 0 \<and> total_records st' = 0 \<and> table st' = [])"
proof -
  have 1: "''Note'' \<in> fst ` set [(''Note'', JStr ''Thank you for using Alpha Vantage!''),
           (''Meta Data'', sample_metadata),
           (''Time Series (60min)'', JObj [good_entry])]"
    by simp
  have 2: "normalise ''msft'' \<noteq> []"
    by (simp add: normalise_samples)
  have 3: "network scenario_world ''demo'' (requested (start_state [])) (normalise ''msft'') =
      Response 200 (Some (JObj [(''Note'', JStr ''Thank you for using Alpha Vantage!''),
           (''Meta Data'', sample_metadata),
           (''Time Series (60min)'', JObj [good_entry])]))"
    by (simp add: scenario_world_def normalise_samples note_with_data_def)
  from rate_limit_note_discards_data[OF 1 2 3] show ?thesis
    by (simp add: parse_note_with_data note_with_data_def[symmetric] start_state_def)
qed

section \<open>Claims about the record store\<close>

text \<open>
  Claim C7. For a non-empty batch, \<open>store_data\<close> either reports success, and then the
  table is the old table with the statements of the whole batch applied and every
  record of the batch has a row; or it reports failure, and then the table is the old
  table. It succeeds exactly when the connection is obtained, every statement executes
  and the commit succeeds.
\<close>

theorem store_all_or_nothing:
  assumes "data \<noteq> []"
  shows "(store_data pg data tbl = (True, insert_all (txn_time pg) data tbl) \<and>
            connects pg \<and> list_all (accepts pg) data \<and> commits pg \<and>
            list_all (\<lambda>r. rows_with (key_of r) (insert_all (txn_time pg) data tbl) \<noteq> []) data)
         \<or> (store_data pg data tbl = (False, tbl) \<and>
            \<not> (connects pg \<and> list_all (accepts pg) data \<and> commits pg))"
  using assms by (auto simp: store_data_eq list_all_iff rows_with_insert_all_member)

text \<open>
  Witness for C7: a batch that is committed, and a batch whose second record the
  database rejects (its volume does not fit BIGINT) after the first was executed.
\<close>

theorem store_all_or_nothing_witness:
  "store_data (strict_session 100) [good_observation] [] =
     (True, insert_all 100 [good_observation] []) \<and>
   store_data (strict_session 100) [good_observation, oversized_observation] [] = (False, [])"
proof -
  have 1: "[good_observation] \<noteq> []" and 2: "[good_observation, oversized_observation] \<noteq> []"
    by simp_all
  from store_all_or_nothing[OF 1, of "strict_session 100" "[]"]
    store_all_or_nothing[OF 2, of "strict_session 100" "[]"]
  show ?thesis by (simp add: strict_session_samples)
qed

text \<open>
  Claim C2. Let the table satisfy its primary key, let a first successful store call
  write a batch holding an observation with some key, and let a second successful
  store call write a batch whose last observation with that key is \<open>o2\<close>. Then after
  each call the table holds exactly one row with that key; after the second call its
  prices, volume and \<open>last_refreshed\<close> are those of \<open>o2\<close> and its \<open>created_at\<close> is the
  one the row had after the first call (the time of the first call's transaction when
  the key was new); and the table still has no two rows with the same key.
\<close>

theorem upsert_keeps_one_row:
  assumes pk: "distinct (map key_of tbl0)"
    and s1: "store_data pg1 batch1 tbl0 = (True, tbl1)"
    and s2: "store_data pg2 batch2 tbl1 = (True, tbl2)"
    and o1: "o1 \<in> set batch1"
    and o2: "batch2 = pre @ o2 # post" "\<forall>r \<in> set post. key_of r \<noteq> key_of o2"
    and same: "key_of o1 = key_of o2"
  shows "\<exists>row1 row2.
           rows_with (key_of o2) tbl1 = [row1] \<and> rows_with (key_of o2) tbl2 = [row2] \<and>
           open_price row2 = open_price o2 \<and> high_price row2 = high_price o2 \<and>
           low_price row2 = low_price o2 \<and> close_price row2 = close_price o2 \<and>
           volume row2 = volume o2 \<and> last_refreshed row2 = last_refreshed o2 \<and>
           created_at row2 = created_at row1 \<and>
           (rows_with (key_of o2) tbl0 = [] \<longrightarrow> created_at row1 = txn_time pg1) \<and>
           distinct (map key_of tbl2)"
proof -
  from store_data_True[OF s1] have t1: "tbl1 = insert_all (txn_time pg1) batch1 tbl0" by simp
  from store_data_True[OF s2] have t2: "tbl2 = insert_all (txn_time pg2) batch2 tbl1" by simp
  from rows_with_insert_all_present[OF pk o1, of "txn_time pg1"] same t1
  obtain row1 where r1: "rows_with (key_of o2) tbl1 = [row1]" by auto
  from rows_with_insert_all_last[OF r1 o2(2), of "txn_time pg2" pre] t2 o2(1)
  obtain row where r2: "rows_with (key_of o2) tbl2 = [do_update o2 row]"
    and c: "created_at row = created_at row1" by auto
  have new: "created_at row1 = txn_time pg1" if "rows_with (key_of o2) tbl0 = []"
  proof -
    from o1 same have "\<exists>r \<in> set batch1. key_of r = key_of o2" by auto
    from rows_with_insert_all_new[OF that this, of "txn_time pg1"] r1 t1 show ?thesis by simp
  qed
  have d: "distinct (map key_of tbl2)"
    unfolding t2 t1 by (intro distinct_insert_all pk)
  from r1 r2 c new d show ?thesis
    by (simp add: do_update_def)
qed

text \<open>Witness for C2: the same observation stored at time 100 and, revised, at time 200.\<close>

theorem upsert_keeps_one_row_witness:
  "\<exists>row1 row2.
     rows_with (key_of revised_observation) [new_row 100 good_observation] = [row1] \<and>
     rows_with (key_of revised_observation)
       (snd (store_data (strict_session 200) [revised_observation] [new_row 100 good_observation]))
       = [row2] \<and>
     open_price row2 = Finite 152 \<and> volume row2 = 1500 \<and>
     last_refreshed row2 = JStr ''2024-01-02 17:00:00'' \<and>
     created_at row2 = created_at row1 \<and> created_at row1 = 100"
proof -
  have pk: "distinct (map key_of ([] :: stock_row list))" by simp
  have s1: "store_data (strict_session 100) [good_observation] [] =
      (True, [new_row 100 good_observation])"
    by (rule store_good_observation)
  have s2: "store_data (strict_session 200) [revised_observation] [new_row 100 good_observation] =
      (True, snd (store_data (strict_session 200) [revised_observation] [new_row 100 good_observation]))"
    by (simp add: store_data_eq strict_session_samples)
  have o1: "good_observation \<in> set [good_observation]" by simp
  have o2: "[revised_observation] = [] @ revised_observation # []"
    "\<forall>r \<in> set ([] :: observation list). key_of r \<noteq> key_of revised_observation"
    by simp_all
  have same: "key_of good_observation = key_of revised_observation"
    by (simp add: key_of_def revised_observation_def)
  have new: "rows_with (key_of revised_observation) [] = []"
    by (simp add: rows_with_def)
  from upsert_keeps_one_row[OF pk s1 s2 o1 o2 same] new
  show ?thesis
    by (simp add: strict_session_samples revised_observation_def) blast
qed

section \<open>Claims about the runner\<close>

text \<open>
  Claim C8, as the code has it. When the credential is missing, empty or the
  placeholder, the run ends at once: no symbol is requested from the provider, the
  table and the counters are untouched, and the only message logged is that the key is
  not configured. No run summary is logged, so no attempted count is reported.
\<close>

theorem unconfigured_key_stops_run:
  assumes "api_key = None \<or> api_key = Some [] \<or> api_key = Some ''your_alpha_vantage_api_key_here''"
  shows "fetch_and_process_stock_data w api_key symbols tbl =
           Inr \<lparr>successful_symbols = 0, total_records = 0, requested = [], table = tbl,
                logged = [ApiKeyNotConfigured]\<rparr>"
  using assms
  by (auto simp: fetch_and_process_stock_data_def key_configured_def start_state_def say_def)

text \<open>Witness for C8: the three credentials the check refuses.\<close>

theorem unconfigured_key_stops_run_witness:
  "requested (projr (fetch_and_process_stock_data scenario_world None [''AAPL'', ''MSFT''] [])) = [] \<and>
   logged (projr (fetch_and_process_stock_data scenario_world (Some []) [''AAPL'', ''MSFT''] []))
     = [ApiKeyNotConfigured] \<and>
   fetch_and_process_stock_data scenario_world (Some ''your_alpha_vantage_api_key_here'')
       [''AAPL'', ''MSFT''] [] =
     Inr \<lparr>successful_symbols = 0, total_records = 0, requested = [], table = [],
          logged = [ApiKeyNotConfigured]\<rparr>"
  using unconfigured_key_stops_run[of None scenario_world "[''AAPL'', ''MSFT'']" "[]"]
    unconfigured_key_stops_run[of "Some []" scenario_world "[''AAPL'', ''MSFT'']" "[]"]
    unconfigured_key_stops_run[of "Some ''your_alpha_vantage_api_key_here''" scenario_world
      "[''AAPL'', ''MSFT'']" "[]"]
  by simp

text \<open>
  Counterexample to C8 as stated: with an empty credential the log of the run holds no
  summary, so the run does not report an attempted count of zero; it reports none.
\<close>

theorem unconfigured_key_reports_no_count:
  "fetch_and_process_stock_data scenario_world (Some []) [''AAPL''] [] =
     Inr \<lparr>successful_symbols = 0, total_records = 0, requested = [], table = [],
          logged = [ApiKeyNotConfigured]\<rparr> \<and>
   reported_attempted [ApiKeyNotConfigured] = None \<and>
   reported_attempted [ApiKeyNotConfigured] \<noteq> Some 0"
  by (simp add: fetch_and_process_stock_data_def key_configured_def start_state_def say_def)

text \<open>
  Claim C10. With a configured key, every run that reaches its end logs as its last
  message the summary whose attempted count is the length of the symbol list as given,
  while the symbols actually requested from the provider are only the entries that are
  non-empty after trimming; and the run reaches its end whenever no call of
  \<open>fetch_stock_data\<close> raises.
\<close>

theorem summary_counts_every_entry:
  assumes "key_configured api_key"
  shows "(\<forall>st. fetch_and_process_stock_data w api_key symbols tbl = Inr st \<longrightarrow>
            last (logged st) =
              PipelineCompleted (successful_symbols st) (length symbols) (total_records st) \<and>
            requested st = filter (\<lambda>s. s \<noteq> []) (map normalise symbols)) \<and>
         ((\<forall>h s. returns (fetch_stock_data (network w (the api_key) h s))) \<longrightarrow>
            (\<exists>st. fetch_and_process_stock_data w api_key symbols tbl = Inr st))"
proof (intro conjI allI impI)
  fix st assume r: "fetch_and_process_stock_data w api_key symbols tbl = Inr st"
  with assms obtain st0 where
    p: "process_all w (the api_key) (start_state tbl) symbols = Inr st0" and
    st: "st = say (PipelineCompleted (successful_symbols st0) (length symbols) (total_records st0)) st0"
    by (auto simp: fetch_and_process_stock_data_def then_do_Inr)
  from st show "last (logged st) =
      PipelineCompleted (successful_symbols st) (length symbols) (total_records st)"
    by simp
  from process_all_requested[OF p] st
  show "requested st = filter (\<lambda>s. s \<noteq> []) (map normalise symbols)"
    by (simp add: start_state_def)
next
  assume "\<forall>h s. returns (fetch_stock_data (network w (the api_key) h s))"
  then obtain st0 where "process_all w (the api_key) (start_state tbl) symbols = Inr st0"
    using process_all_returns[of w "the api_key" "start_state tbl" symbols] by blast
  with assms show "\<exists>st. fetch_and_process_stock_data w api_key symbols tbl = Inr st"
    by (simp add: fetch_and_process_stock_data_def)
qed

text \<open>
  Witness for C10: three entries, one of them blank; two requests are made and the
  summary counts three.
\<close>

theorem summary_counts_every_entry_witness:
  "\<exists>st. fetch_and_process_stock_data scenario_world (Some ''demo'') [''aapl '', ''  '', ''MSFT''] []
          = Inr st \<and>
        last (logged st) = PipelineCompleted (successful_symbols st) 3 (total_records st) \<and>
        requested st = [''AAPL'', ''MSFT'']"
proof -
  have k: "key_configured (Some ''demo'')"
    by (simp add: key_configured_def)
  have r: "\<forall>h s. returns (fetch_stock_data (network scenario_world (the (Some ''demo'')) h s))"
    by (simp add: scenario_world_def fetch_samples)
  from summary_counts_every_entry[OF k, of scenario_world "[''aapl '', ''  '', ''MSFT'']" "[]"] r
  show ?thesis
    by (auto simp: normalise_samples)
qed

text \<open>
  Claim C4 does not hold of the code. \<open>fetch_stock_data\<close> catches only
  RequestException and ValueError; when the provider's body decodes to \<^verbatim>\<open>None\<close>
  (the JSON text \<open>null\<close>) the membership test raises TypeError, which nothing catches:
  the run ends at that symbol and the symbols after it are never processed.
\<close>

theorem null_body_ends_run:
  "fetch_and_process_stock_data null_body_world (Some ''demo'') [''AAPL'', ''MSFT''] [] =
     Inl TypeError"
  by (simp add: fetch_and_process_stock_data_def key_configured_def start_state_def
      process_symbol_def normalise_samples null_body_world_def fetch_samples say_def Let_def)

end
